theory Spec2Isabelle
  imports Main "HOL-Library.Sublist"
begin

chapter \<open>The reconciliation engine of CronJobs10min\<close>

text \<open>
  A shallow embedding of the cron worker: the SKU resolver (\<^verbatim>\<open>utils/skuResolver.js\<close>),
  the alert loop and the shipment stock deduction of \<^verbatim>\<open>runOnce\<close> (\<^verbatim>\<open>index.js\<close>),
  the shipment merger (\<^verbatim>\<open>jobs/backfillShipmentsFromEvents.js\<close>, in its batched form and in
  the earlier per-event form) and the order tracking backfiller
  (\<^verbatim>\<open>jobs/fixShippedOrdersMissingTracking.js\<close>).

  Conventions of the embedding.
  \<^item> A nullable JavaScript string is a \<open>string option\<close>; \<open>None\<close> stands for \<^verbatim>\<open>null\<close> and
    \<^verbatim>\<open>undefined\<close>. A value is falsy when it is \<open>None\<close> or the empty string.
  \<^item> The plain objects that \<^verbatim>\<open>skuResolver.js\<close> uses as dictionaries are modelled with their
    own properties and their prototype (\<open>jsdict\<close>), since \<^verbatim>\<open>obj[key]\<close> reads both. The
    \<^verbatim>\<open>Map\<close>s of \<^verbatim>\<open>runOnce\<close> and the rows of the merger are association lists, read with
    \<open>map_of\<close>.
  \<^item> A table of the remote store is the list of its rows, and a query answers from that
    list. In the alert loop, the merger and the backfiller the store calls answer, and a
    lookup that asks for one row takes the first row of the table that passes its filters.
    In the shipment stock deduction the answer of the store is an input of the model:
    whether a call fails, and which row a lookup with \<^verbatim>\<open>limit(1)\<close> answers when its filters
    and its order leave several to choose from; the step reads it from a sequence of
    answers carried in its state. The page fetches of the paginated loops answer \<open>None\<close>
    when they fail.
  \<^item> \<^verbatim>\<open>String.prototype.toLowerCase\<close> and the white space class \<^verbatim>\<open>\s\<close> are parameters of
    the SKU normalization (\<open>js_text\<close>). Their restriction to ASCII text (\<open>asciiText\<close>) is
    what the examples use, all of them ASCII, and what \<^verbatim>\<open>trim\<close> and the source type test
    of the merger use.
\<close>

section \<open>SKU resolver\<close>

definition is_space :: "char \<Rightarrow> bool" where
  "is_space c = (c \<in> set [CHR '' '', CHR 0x09, CHR 0x0A, CHR 0x0B, CHR 0x0C, CHR 0x0D])"

definition lower_char :: "char \<Rightarrow> char" where
  "lower_char c =
     (let n = (of_char c :: int) in if 65 \<le> n \<and> n \<le> 90 then char_of (n + 32) else c)"

definition is_digit :: "char \<Rightarrow> bool" where
  "is_digit c = (48 \<le> (of_char c :: nat) \<and> (of_char c :: nat) \<le> 57)"

text \<open>
  The text built-ins that \<^verbatim>\<open>normalizeSku\<close> calls: \<^verbatim>\<open>toLowerCase\<close> on a whole string, and
  the class \<^verbatim>\<open>\s\<close> of the characters that \<^verbatim>\<open>replace(/\s+/g, '')\<close> removes.
\<close>

record js_text =
  toLowerCase :: "string \<Rightarrow> string"
  isWhiteSpace :: "char \<Rightarrow> bool"

definition asciiText :: js_text where
  "asciiText = \<lparr>toLowerCase = map lower_char, isWhiteSpace = is_space\<rparr>"

text \<open>\<^verbatim>\<open>String(raw || '').toLowerCase().replace(/\s+/g, '')\<close>\<close>

definition normalizeSku :: "js_text \<Rightarrow> string option \<Rightarrow> string" where
  "normalizeSku rt raw =
     filter (\<lambda>c. \<not> isWhiteSpace rt c) (toLowerCase rt (case raw of None \<Rightarrow> [] | Some s \<Rightarrow> s))"

record product_row =
  p_id :: "string option"
  p_Sku :: "string option"

record bundle_row =
  b_id :: "string option"
  b_name :: "string option"

record client_row =
  ci_id :: "string option"
  ci_sku :: "string option"
  ci_client_id :: "string option"

text \<open>The properties of a row of \<^verbatim>\<open>select('id, Sku')\<close> and of \<^verbatim>\<open>select('id, name')\<close>.\<close>

definition productProps :: "product_row \<Rightarrow> (string \<times> string option) list" where
  "productProps p = [(''id'', p_id p), (''Sku'', p_Sku p)]"

definition bundleProps :: "bundle_row \<Rightarrow> (string \<times> string option) list" where
  "bundleProps b = [(''id'', b_id b), (''name'', b_name b)]"

text \<open>
  \<^verbatim>\<open>obj[k] = v\<close> on own properties and \<^verbatim>\<open>map.set(k, v)\<close>: a key that is there keeps its
  place and takes the new value, a new key goes last.
\<close>

definition truthy :: "string option \<Rightarrow> bool" where
  "truthy s = (case s of None \<Rightarrow> False | Some t \<Rightarrow> t \<noteq> [])"

fun put :: "'k \<Rightarrow> 'v \<Rightarrow> ('k \<times> 'v) list \<Rightarrow> ('k \<times> 'v) list" where
  "put k v [] = [(k, v)]"
| "put k v ((k', v') # m) = (if k = k' then (k, v) # m else (k', v') # put k v m)"

text \<open>
  A catalog map is a plain object: its own properties, whose values are rows, and its
  prototype, \<^verbatim>\<open>Object.prototype\<close> (\<open>None\<close>) for an object created by \<^verbatim>\<open>{}\<close>, or a row once
  \<^verbatim>\<open>obj['__proto__'] = row\<close> has run.

  \<^verbatim>\<open>obj[k]\<close> answers the own property; else what the prototype chain holds under \<open>k\<close>:
  a property of the prototype row, the prototype row itself for \<^verbatim>\<open>__proto__\<close>, or a member
  of \<^verbatim>\<open>Object.prototype\<close> (a function, or \<^verbatim>\<open>Object.prototype\<close> itself for \<^verbatim>\<open>__proto__\<close>);
  else \<^verbatim>\<open>undefined\<close>.
\<close>

datatype 'a jsdict = JsDict (dict_own: "(string \<times> 'a) list") (dict_proto: "'a option")

datatype 'a member = OwnEntry 'a | ProtoObject 'a | ProtoField "string option" | Builtin string

definition objectPrototypeNames :: "string list" where
  "objectPrototypeNames =
     [''constructor'', ''__defineGetter__'', ''__defineSetter__'', ''hasOwnProperty'',
      ''__lookupGetter__'', ''__lookupSetter__'', ''isPrototypeOf'', ''propertyIsEnumerable'',
      ''toString'', ''valueOf'', ''__proto__'', ''toLocaleString'']"

definition protoGet ::
  "('a \<Rightarrow> (string \<times> string option) list) \<Rightarrow> 'a jsdict \<Rightarrow> string \<Rightarrow> 'a member option" where
  "protoGet props d k =
     (case dict_proto d of
        None \<Rightarrow> if k \<in> set objectPrototypeNames then Some (Builtin k) else None
      | Some r \<Rightarrow>
          (case map_of (props r) k of
             Some v \<Rightarrow> Some (ProtoField v)
           | None \<Rightarrow>
               if k = ''__proto__'' then Some (ProtoObject r)
               else if k \<in> set objectPrototypeNames then Some (Builtin k) else None))"

definition dictGet ::
  "('a \<Rightarrow> (string \<times> string option) list) \<Rightarrow> 'a jsdict \<Rightarrow> string \<Rightarrow> 'a member option" where
  "dictGet props d k =
     (case map_of (dict_own d) k of Some v \<Rightarrow> Some (OwnEntry v) | None \<Rightarrow> protoGet props d k)"

text \<open>The truth value of \<^verbatim>\<open>obj[k]\<close>: rows and functions are objects, a field is a text.\<close>

definition memberTruthy :: "'a member option \<Rightarrow> bool" where
  "memberTruthy m =
     (case m of None \<Rightarrow> False | Some (ProtoField v) \<Rightarrow> truthy v | Some _ \<Rightarrow> True)"

text \<open>
  \<^verbatim>\<open>obj[k] = row\<close>: the key \<^verbatim>\<open>__proto__\<close>, unless it is an own property, reaches the setter
  of \<^verbatim>\<open>Object.prototype\<close> and replaces the prototype; any other key becomes an own
  property.
\<close>

definition dictSet :: "'a jsdict \<Rightarrow> string \<Rightarrow> 'a \<Rightarrow> 'a jsdict" where
  "dictSet d k v =
     (if k = ''__proto__'' \<and> map_of (dict_own d) k = None
      then JsDict (dict_own d) (Some v)
      else JsDict (put k v (dict_own d)) (dict_proto d))"

text \<open>
  \<^verbatim>\<open>Object.keys(obj)\<close>: the own keys, those that are array indices first, in ascending
  order, then the others in the order of their creation.
\<close>

definition digitsValue :: "string \<Rightarrow> int" where
  "digitsValue k = foldl (\<lambda>n c. 10 * n + ((of_char c :: int) - 48)) 0 k"

definition isArrayIndex :: "string \<Rightarrow> bool" where
  "isArrayIndex k =
     (k \<noteq> [] \<and> list_all is_digit k \<and> (length k = 1 \<or> hd k \<noteq> CHR ''0'') \<and>
      digitsValue k < 4294967295)"

definition dictKeys :: "'a jsdict \<Rightarrow> string list" where
  "dictKeys d =
     (let ks = rev (remdups (rev (map fst (dict_own d))))
      in sort_key digitsValue (filter isArrayIndex ks) @ filter (\<lambda>k. \<not> isArrayIndex k) ks)"

definition buildSkuMaps ::
  "js_text \<Rightarrow> product_row list \<Rightarrow> bundle_row list \<Rightarrow> product_row jsdict \<times> bundle_row jsdict" where
  "buildSkuMaps rt products bundles =
     (foldl (\<lambda>productMap p.
               if truthy (p_Sku p) then dictSet productMap (normalizeSku rt (p_Sku p)) p
               else productMap) (JsDict [] None) products,
      foldl (\<lambda>bundleMap b.
               if truthy (b_name b) then dictSet bundleMap (normalizeSku rt (b_name b)) b
               else bundleMap) (JsDict [] None) bundles)"

text \<open>
  The result object of \<^verbatim>\<open>resolveSku\<close>. \<open>matchType\<close> is the string the code returns
  (\<open>None\<close> for \<^verbatim>\<open>null\<close>); \<open>res_bundle\<close> and \<open>res_product\<close> are the properties \<^verbatim>\<open>bundle\<close>
  and \<^verbatim>\<open>product\<close>; \<open>res_client\<close> is the property \<^verbatim>\<open>client\<close> that the caller reads.
\<close>

record resolved =
  baseSku :: string
  matchType :: "string option"
  res_bundle :: "bundle_row member option"
  res_product :: "product_row member option"
  res_client :: "client_row member option"

text \<open>
  The closure \<^verbatim>\<open>tryPrefix\<close>, with the best key so far passed through; one fold per map.
\<close>

definition tryPrefix :: "string \<Rightarrow> string \<Rightarrow> string \<Rightarrow> string" where
  "tryPrefix norm best k = (if prefix k norm \<and> length k > length best then k else best)"

definition firstSegment :: "string \<Rightarrow> string" where
  "firstSegment norm = takeWhile (\<lambda>c. c \<notin> set ''-_.'') norm"

text \<open>
  \<^verbatim>\<open>resolveSku(rawSku, productMap = {}, bundleMap = {})\<close> has three parameters. The caller in
  \<^verbatim>\<open>runOnce\<close> passes a fourth argument, the client SKU map; JavaScript drops it, and so
  does the model.
\<close>

definition resolveSku ::
  "js_text \<Rightarrow> string option \<Rightarrow> product_row jsdict \<Rightarrow> bundle_row jsdict \<Rightarrow> client_row jsdict \<Rightarrow>
   resolved" where
  "resolveSku rt rawSku productMap bundleMap clientSkuMap =
     (if \<not> truthy rawSku
      then \<lparr>baseSku = [], matchType = None, res_bundle = None, res_product = None,
            res_client = None\<rparr>
      else
        let norm = normalizeSku rt rawSku in
        if memberTruthy (dictGet bundleProps bundleMap norm)
        then \<lparr>baseSku = norm, matchType = Some ''bundle'',
              res_bundle = dictGet bundleProps bundleMap norm, res_product = None,
              res_client = None\<rparr>
        else if memberTruthy (dictGet productProps productMap norm)
        then \<lparr>baseSku = norm, matchType = Some ''product'', res_bundle = None,
              res_product = dictGet productProps productMap norm, res_client = None\<rparr>
        else
          (let bestBundleKey = foldl (tryPrefix norm) [] (dictKeys bundleMap);
               bestProductKey = foldl (tryPrefix norm) [] (dictKeys productMap)
           in if bestBundleKey \<noteq> []
              then \<lparr>baseSku = bestBundleKey, matchType = Some ''bundle'',
                    res_bundle = dictGet bundleProps bundleMap bestBundleKey, res_product = None,
                    res_client = None\<rparr>
              else if bestProductKey \<noteq> []
              then \<lparr>baseSku = bestProductKey, matchType = Some ''product'',
                    res_bundle = None,
                    res_product = dictGet productProps productMap bestProductKey,
                    res_client = None\<rparr>
              else \<lparr>baseSku = firstSegment norm, matchType = None, res_bundle = None,
                    res_product = None, res_client = None\<rparr>))"

text \<open>
  What the resolution order promises for a prefix match: the key is registered, it is a
  prefix of the normalized SKU, and no registered prefix of the SKU is longer.
\<close>

definition longest_prefix_key :: "string list \<Rightarrow> string \<Rightarrow> string \<Rightarrow> bool" where
  "longest_prefix_key keys norm k =
     (k \<in> set keys \<and> prefix k norm \<and>
      list_all (\<lambda>k'. prefix k' norm \<longrightarrow> length k' \<le> length k) keys)"

text \<open>
  The entry a catalog registers under a key, and the condition that a key is not matched
  by a property the catalog object inherits without registering it.
\<close>

definition registered :: "'a jsdict \<Rightarrow> string \<Rightarrow> 'a member option" where
  "registered d k = map_option OwnEntry (map_of (dict_own d) k)"

definition notInherited ::
  "('a \<Rightarrow> (string \<times> string option) list) \<Rightarrow> 'a jsdict \<Rightarrow> string \<Rightarrow> bool" where
  "notInherited props d k = (k \<in> set (dictKeys d) \<or> \<not> memberTruthy (protoGet props d k))"

section \<open>Alert manager\<close>

text \<open>
  The loop \<^verbatim>\<open>for (const [sku, qtyNeeded] of demand.entries())\<close> of \<^verbatim>\<open>runOnce\<close>. An entry of
  the map \<^verbatim>\<open>pickable\<close> is \<^verbatim>\<open>{ available, client_id }\<close>; a row of \<^verbatim>\<open>inventory_alerts\<close> has
  the columns the job writes, and its id.
\<close>

record pick_entry =
  pk_available :: int
  pk_client_id :: "string option"

record inventory_alert =
  al_id :: nat
  al_client_id :: "string option"
  al_item_type :: string
  al_item_id :: "string option"
  al_alert_type :: string
  al_message :: string
  al_severity :: string
  al_is_active :: bool
  al_updated_at :: string

text \<open>\<^verbatim>\<open>x || null\<close> on a nullable string.\<close>

definition orNull :: "string option \<Rightarrow> string option" where
  "orNull s = (if truthy s then s else None)"

text \<open>
  Lines 138 to 141 and 155: the two conditions, the alert type and the severity. The
  result is \<open>None\<close> when \<^verbatim>\<open>alertType\<close> is \<^verbatim>\<open>null\<close>.
\<close>

definition alertDecision :: "int \<Rightarrow> int \<Rightarrow> int \<Rightarrow> int \<Rightarrow> (string \<times> string) option" where
  "alertDecision qtyNeeded pickAvailable backQty totalQty =
     (let needsRestock = (qtyNeeded > pickAvailable \<and> backQty > 0);
          needsPurchase = (qtyNeeded > totalQty);
          alertType = (if needsPurchase then Some ''purchase''
                       else if needsRestock then Some ''restock'' else None)
      in case alertType of
           None \<Rightarrow> None
         | Some t \<Rightarrow> Some (t, if needsPurchase then ''high'' else ''medium''))"

text \<open>
  The filter \<^verbatim>\<open>.eq(column, value)\<close> on a nullable text column. The request carries
  \<^verbatim>\<open>column=eq.<value>\<close>, and the store compares the column with that text: for the value
  \<^verbatim>\<open>null\<close> the request is \<^verbatim>\<open>column=eq.null\<close>, a comparison with the text \<open>null\<close>, which a
  row whose column is NULL does not pass (the test for NULL is \<^verbatim>\<open>.is(column, null)\<close>, which
  the jobs use elsewhere).
\<close>

definition eqFilter :: "string option \<Rightarrow> string option \<Rightarrow> bool" where
  "eqFilter column v = (case v of None \<Rightarrow> column = Some ''null'' | Some t \<Rightarrow> column = Some t)"

text \<open>
  The update that clears alerts: \<^verbatim>\<open>update({ is_active: false, updated_at })\<close> filtered by
  \<^verbatim>\<open>item_type = 'client_product'\<close>, \<^verbatim>\<open>message = sku\<close>, \<^verbatim>\<open>client_id\<close> and \<^verbatim>\<open>is_active = true\<close>.
\<close>

definition clearFilter :: "string \<Rightarrow> string option \<Rightarrow> inventory_alert \<Rightarrow> bool" where
  "clearFilter sku cid a =
     (al_item_type a = ''client_product'' \<and> al_message a = sku \<and>
      eqFilter (al_client_id a) cid \<and> al_is_active a)"

definition clearAlerts ::
  "string \<Rightarrow> string \<Rightarrow> string option \<Rightarrow> inventory_alert list \<Rightarrow> inventory_alert list" where
  "clearAlerts now sku cid alerts =
     map (\<lambda>a. if clearFilter sku cid a then a\<lparr>al_is_active := False, al_updated_at := now\<rparr> else a)
       alerts"

text \<open>
  The upsert. \<open>native\<close> says whether the store has the unique index that the upsert on
  \<^verbatim>\<open>client_id,item_type,alert_type,message\<close> needs. When it has, the row in conflict with
  the payload takes the payload's columns, and the payload is inserted when there is
  none; a NULL \<^verbatim>\<open>client_id\<close> is in conflict with no row, as a unique index holds NULLs
  apart. When it has not, the fallback selects the active row of that key with \<^verbatim>\<open>.eq\<close>
  filters (\<^verbatim>\<open>maybeSingle\<close> is an error on several rows, which the job logs), updates its
  severity and time when the row has a truthy id, or inserts.
\<close>

definition sameKey :: "inventory_alert \<Rightarrow> inventory_alert \<Rightarrow> bool" where
  "sameKey p a =
     (al_client_id p \<noteq> None \<and> al_client_id a = al_client_id p \<and>
      al_item_type a = al_item_type p \<and>
      al_alert_type a = al_alert_type p \<and> al_message a = al_message p)"

definition selectExisting :: "inventory_alert \<Rightarrow> inventory_alert \<Rightarrow> bool" where
  "selectExisting p a =
     (eqFilter (al_client_id a) (al_client_id p) \<and> al_item_type a = ''client_product'' \<and>
      al_alert_type a = al_alert_type p \<and> al_message a = al_message p \<and> al_is_active a)"

definition freshId :: "inventory_alert list \<Rightarrow> nat" where
  "freshId alerts = Suc (foldr max (map al_id alerts) 0)"

definition insertAlert :: "inventory_alert \<Rightarrow> inventory_alert list \<Rightarrow> inventory_alert list" where
  "insertAlert p alerts = alerts @ [p\<lparr>al_id := freshId alerts\<rparr>]"

definition upsertAlert :: "bool \<Rightarrow> inventory_alert \<Rightarrow> inventory_alert list \<Rightarrow> inventory_alert list" where
  "upsertAlert native p alerts =
     (if native then
        (if list_ex (sameKey p) alerts
         then map (\<lambda>a. if sameKey p a then p\<lparr>al_id := al_id a\<rparr> else a) alerts
         else insertAlert p alerts)
      else
        (case filter (selectExisting p) alerts of
           [] \<Rightarrow> insertAlert p alerts
         | [existing] \<Rightarrow>
             if al_id existing \<noteq> 0
             then map (\<lambda>a. if al_id a = al_id existing
                            then a\<lparr>al_severity := al_severity p, al_updated_at := al_updated_at p\<rparr>
                            else a) alerts
             else insertAlert p alerts
         | _ \<Rightarrow> alerts))"

text \<open>
  The loop body, after its three lookups (\<open>alertBody\<close>), and with them (\<open>alertStep\<close>).
  \<open>now\<close> is \<^verbatim>\<open>new Date().toISOString()\<close>.
\<close>

definition alertBody ::
  "bool \<Rightarrow> string \<Rightarrow> string \<Rightarrow> int \<Rightarrow> pick_entry \<Rightarrow> int \<Rightarrow> int \<Rightarrow>
   inventory_alert list \<Rightarrow> inventory_alert list" where
  "alertBody native now sku qtyNeeded pick backQty totalQty alerts =
     (case alertDecision qtyNeeded (pk_available pick) backQty totalQty of
        None \<Rightarrow> clearAlerts now sku (orNull (pk_client_id pick)) alerts
      | Some (alertType, severity) \<Rightarrow>
          upsertAlert native
            \<lparr>al_id = 0, al_client_id = orNull (pk_client_id pick),
             al_item_type = ''client_product'', al_item_id = None, al_alert_type = alertType,
             al_message = sku, al_severity = severity, al_is_active = True,
             al_updated_at = now\<rparr> alerts)"

definition orZero :: "int option \<Rightarrow> int" where
  "orZero n = (case n of None \<Rightarrow> 0 | Some i \<Rightarrow> i)"

definition alertStep ::
  "bool \<Rightarrow> string \<Rightarrow> (string \<rightharpoonup> pick_entry) \<Rightarrow> (string \<rightharpoonup> int) \<Rightarrow> (string \<rightharpoonup> int) \<Rightarrow>
   inventory_alert list \<Rightarrow> string \<times> int \<Rightarrow> inventory_alert list" where
  "alertStep native now pickable backstockBySku totalBySku alerts entry =
     (let sku = fst entry; qtyNeeded = snd entry;
          pick = (case pickable sku of None \<Rightarrow> \<lparr>pk_available = 0, pk_client_id = None\<rparr>
                  | Some p \<Rightarrow> p);
          backQty = orZero (backstockBySku sku);
          totalQty = orZero (totalBySku sku)
      in alertBody native now sku qtyNeeded pick backQty totalQty alerts)"

definition upsertAlerts ::
  "bool \<Rightarrow> string \<Rightarrow> (string \<rightharpoonup> pick_entry) \<Rightarrow> (string \<rightharpoonup> int) \<Rightarrow> (string \<rightharpoonup> int) \<Rightarrow>
   (string \<times> int) list \<Rightarrow> inventory_alert list \<Rightarrow> inventory_alert list" where
  "upsertAlerts native now pickable backstockBySku totalBySku demand alerts =
     foldl (alertStep native now pickable backstockBySku totalBySku) alerts demand"

section \<open>Rows as JavaScript objects\<close>

text \<open>
  The merger and the backfiller build and compare rows field by field, so a row is a
  JavaScript object: an association list from property names to values. A missing
  property reads as \<^verbatim>\<open>null\<close> (the code treats \<^verbatim>\<open>undefined\<close> and \<^verbatim>\<open>null\<close> alike:
  \<^verbatim>\<open>== null\<close>, \<^verbatim>\<open>??\<close>, and \<^verbatim>\<open>=== null || === undefined\<close> together).
\<close>

datatype jsval = JNull | JBool bool | JNum int | JStr string

type_synonym jsobj = "(string \<times> jsval) list"

definition getp :: "jsobj \<Rightarrow> string \<Rightarrow> jsval" where
  "getp obj k = (case map_of obj k of None \<Rightarrow> JNull | Some v \<Rightarrow> v)"

fun js_truthy :: "jsval \<Rightarrow> bool" where
  "js_truthy JNull = False"
| "js_truthy (JBool b) = b"
| "js_truthy (JNum n) = (n \<noteq> 0)"
| "js_truthy (JStr s) = (s \<noteq> [])"

text \<open>\<^verbatim>\<open>a || b\<close>\<close>

definition js_or :: "jsval \<Rightarrow> jsval \<Rightarrow> jsval" where
  "js_or a b = (if js_truthy a then a else b)"

function show_nat :: "nat \<Rightarrow> string" where
  "show_nat n = (if n < 10 then [char_of (48 + n)] else show_nat (n div 10) @ [char_of (48 + n mod 10)])"
  by pat_completeness auto
termination
  by (relation "measure id") auto

text \<open>\<^verbatim>\<open>String(v)\<close>\<close>

fun js_String :: "jsval \<Rightarrow> string" where
  "js_String JNull = ''null''"
| "js_String (JBool b) = (if b then ''true'' else ''false'')"
| "js_String (JNum n) = (if n < 0 then CHR ''-'' # show_nat (nat (- n)) else show_nat (nat n))"
| "js_String (JStr s) = s"

text \<open>\<^verbatim>\<open>v != null ? String(v) : null\<close>\<close>

definition stringOrNull :: "jsval \<Rightarrow> jsval" where
  "stringOrNull v = (if v = JNull then JNull else JStr (js_String v))"

text \<open>
  \<^verbatim>\<open>(v || '').trim()\<close> on a text column: the value is a string or \<^verbatim>\<open>null\<close>.
\<close>

definition trim :: "string \<Rightarrow> string" where
  "trim s = rev (dropWhile is_space (rev (dropWhile is_space s)))"

definition trimmed :: "jsval \<Rightarrow> string" where
  "trimmed v = (case v of JStr s \<Rightarrow> trim s | _ \<Rightarrow> [])"

section \<open>Dates\<close>

text \<open>
  \<^verbatim>\<open>toIsoOrNull\<close>, in both jobs. The built-in \<^verbatim>\<open>new Date(v)\<close> followed by
  \<^verbatim>\<open>toISOString()\<close> is the parameter \<open>parseDate\<close>: the ISO text, or \<open>None\<close> when the
  date is invalid (\<^verbatim>\<open>getTime()\<close> is \<^verbatim>\<open>NaN\<close>, or \<^verbatim>\<open>toISOString\<close> throws and the
  \<^verbatim>\<open>catch\<close> returns \<^verbatim>\<open>null\<close>). The test \<^verbatim>\<open>/^\d{4}-\d{2}-\d{2}$/\<close> is \<open>is_date_only\<close>.
\<close>

definition is_date_only :: "string \<Rightarrow> bool" where
  "is_date_only s =
     (case s of
        [y1, y2, y3, y4, d1, m1, m2, d2, t1, t2] \<Rightarrow>
          list_all is_digit [y1, y2, y3, y4, m1, m2, t1, t2] \<and> d1 = CHR ''-'' \<and> d2 = CHR ''-''
      | _ \<Rightarrow> False)"

definition isoOrNull :: "string option \<Rightarrow> jsval" where
  "isoOrNull r = (case r of None \<Rightarrow> JNull | Some t \<Rightarrow> JStr t)"

definition toIsoOrNull :: "(jsval \<Rightarrow> string option) \<Rightarrow> jsval \<Rightarrow> jsval" where
  "toIsoOrNull parseDate v =
     (if \<not> js_truthy v then JNull
      else if is_date_only (js_String v)
      then isoOrNull (parseDate (JStr (js_String v @ ''T00:00:00Z'')))
      else isoOrNull (parseDate v))"

section \<open>Paginated job loops\<close>

text \<open>
  The loop of \<^verbatim>\<open>processShipStationEvents\<close>, \<^verbatim>\<open>processShipEngineEvents\<close> and
  \<^verbatim>\<open>runFixShippedOrdersMissingTracking\<close>:
  \<^verbatim>\<open>
  let page = 0;
  while (page < MAX_PAGES) {
    const from = page * PAGE_SIZE; const to = from + PAGE_SIZE - 1;
    const { data, error } = await ... .range(from, to);
    if (error) break;
    if (!data || data.length === 0) break;
    ... the page's work ...
    if (data.length < PAGE_SIZE) break;
    page += 1;
  }
  \<close>
  The three jobs differ in the query (\<open>fetch\<close>, which reads the store's state and answers
  \<open>None\<close> on an error) and in the page's work (\<open>work\<close>). \<open>MAX_PAGES\<close> and \<open>PAGE_SIZE\<close>
  are what \<^verbatim>\<open>parseInt\<close> made of the environment: any integer (a \<^verbatim>\<open>NaN\<close> compares like a
  bound that is never met, which \<open>0\<close> is for both). The loop returns the final state and
  the record of its iterations: for each fetch, \<open>None\<close> for an error, or the number of rows.
\<close>

function pagedLoop ::
  "int \<Rightarrow> int \<Rightarrow> ('s \<Rightarrow> int \<Rightarrow> int \<Rightarrow> 'r list option) \<Rightarrow> ('s \<Rightarrow> 'r list \<Rightarrow> 's) \<Rightarrow>
   int \<Rightarrow> 's \<Rightarrow> nat option list \<Rightarrow> 's \<times> nat option list" where
  "pagedLoop MAX_PAGES PAGE_SIZE fetch work page st iters =
     (if page < MAX_PAGES then
        (case fetch st (page * PAGE_SIZE) (page * PAGE_SIZE + PAGE_SIZE - 1) of
           None \<Rightarrow> (st, iters @ [None])
         | Some rows \<Rightarrow>
             if rows = [] then (st, iters @ [Some 0])
             else if int (length rows) < PAGE_SIZE
             then (work st rows, iters @ [Some (length rows)])
             else pagedLoop MAX_PAGES PAGE_SIZE fetch work (page + 1) (work st rows)
                    (iters @ [Some (length rows)]))
      else (st, iters))"
  by pat_completeness auto
termination
  by (relation "measure (\<lambda>(MAX_PAGES, PAGE_SIZE, fetch, work, page, st, iters). nat (MAX_PAGES - page))")
     auto

text \<open>
  The loop of the shipment reconciliation in \<^verbatim>\<open>runOnce\<close> counts the page before it tests
  for the last page:
  \<^verbatim>\<open>
  while (page < RECON_MAX_PAGES) {
    ... range(from, to);
    if (shipErr) break;
    if (!shipments || shipments.length === 0) break;
    for (const s of shipments) { ... }
    processed += shipments.length;
    page += 1;
    if (shipments.length < RECON_PAGE_SIZE) break; // last page
  }
  \<close>
  The query reads the table \<^verbatim>\<open>shipments\<close>, which the reconciliation does not write.
\<close>

function reconLoop ::
  "int \<Rightarrow> int \<Rightarrow> (int \<Rightarrow> int \<Rightarrow> 'r list option) \<Rightarrow> ('s \<Rightarrow> 'r \<Rightarrow> 's) \<Rightarrow>
   int \<Rightarrow> 's \<Rightarrow> nat option list \<Rightarrow> 's \<times> nat option list" where
  "reconLoop RECON_MAX_PAGES RECON_PAGE_SIZE fetch perShipment page st iters =
     (if page < RECON_MAX_PAGES then
        (case fetch (page * RECON_PAGE_SIZE) (page * RECON_PAGE_SIZE + RECON_PAGE_SIZE - 1) of
           None \<Rightarrow> (st, iters @ [None])
         | Some shipments \<Rightarrow>
             if shipments = [] then (st, iters @ [Some 0])
             else if int (length shipments) < RECON_PAGE_SIZE
             then (foldl perShipment st shipments, iters @ [Some (length shipments)])
             else reconLoop RECON_MAX_PAGES RECON_PAGE_SIZE fetch perShipment (page + 1)
                    (foldl perShipment st shipments) (iters @ [Some (length shipments)]))
      else (st, iters))"
  by pat_completeness auto
termination
  by (relation "measure (\<lambda>(RECON_MAX_PAGES, RECON_PAGE_SIZE, fetch, perShipment, page, st, iters).
        nat (RECON_MAX_PAGES - page))") auto

section \<open>Multi-source shipment merger\<close>

text \<open>
  \<^verbatim>\<open>jobs/backfillShipmentsFromEvents.js\<close>. An event and a shipment row are objects; the
  order row a builder receives is \<open>None\<close> when the lookup found none.
\<close>

definition orderIdOf :: "jsobj option \<Rightarrow> jsval" where
  "orderIdOf orderRow = (case orderRow of None \<Rightarrow> JNull | Some r \<Rightarrow> getp r ''order_id'')"

definition makeShipmentRowFromShipStationEvent ::
  "(jsval \<Rightarrow> string option) \<Rightarrow> jsobj \<Rightarrow> jsobj option \<Rightarrow> jsobj" where
  "makeShipmentRowFromShipStationEvent parseDate evt orderRow =
     [
      (''source'', JStr ''shipstation''),
      (''type'', JNull),
      (''shipstation_numeric_shipment_id'', JNull),
      (''fulfillment_id'', JNull),
      (''order_id'', (if orderIdOf orderRow \<noteq> JNull then JStr (js_String (orderIdOf orderRow))
        else stringOrNull (getp evt ''order_id''))),
      (''order_number'', js_or (getp evt ''order_number'') JNull),
      (''user_id'', JNull),
      (''customer_email'', JNull),
      (''tracking_number'', js_or (getp evt ''tracking_number'') JNull),
      (''create_date'', toIsoOrNull parseDate (getp evt ''create_date'')),
      (''ship_date'', js_or (toIsoOrNull parseDate (getp evt ''ship_date'')) (toIsoOrNull parseDate (getp evt ''create_date''))),
      (''void_date'', JNull),
      (''delivery_date'', JNull),
      (''carrier_code'', js_or (getp evt ''carrier_code'') JNull),
      (''service_code'', js_or (getp evt ''service_code'') JNull),
      (''package_code'', js_or (getp evt ''package_code'') JNull),
      (''confirmation'', js_or (getp evt ''confirmation'') JNull),
      (''warehouse_id'', js_or (getp evt ''warehouse_id'') JNull),
      (''shipment_cost'', js_or (getp evt ''shipment_cost'') JNull),
      (''insurance_cost'', js_or (getp evt ''insurance_cost'') JNull),
      (''fulfillment_fee'', js_or (getp evt ''fulfillment_fee'') JNull),
      (''void_requested'', JNull),
      (''voided'', js_or (getp evt ''voided'') JNull),
      (''marketplace_notified'', js_or (getp evt ''marketplace_notified'') JNull),
      (''notify_error_message'', js_or (getp evt ''notify_error_message'') JNull),
      (''ship_to_name'', js_or (getp evt ''ship_to_name'') JNull),
      (''ship_to_company'', js_or (getp evt ''ship_to_company'') JNull),
      (''ship_to_street1'', js_or (getp evt ''ship_to_street1'') JNull),
      (''ship_to_street2'', js_or (getp evt ''ship_to_street2'') JNull),
      (''ship_to_street3'', js_or (getp evt ''ship_to_street3'') JNull),
      (''ship_to_city'', js_or (getp evt ''ship_to_city'') JNull),
      (''ship_to_state'', js_or (getp evt ''ship_to_state'') JNull),
      (''ship_to_postal_code'', js_or (getp evt ''ship_to_postal_code'') JNull),
      (''ship_to_country'', js_or (getp evt ''ship_to_country'') JNull),
      (''ship_to_phone'', js_or (getp evt ''ship_to_phone'') JNull),
      (''ship_to_residential'', js_or (getp evt ''ship_to_residential'') JNull),
      (''shipment_items'', JNull),
      (''created_at'', JNull),
      (''is_fulfillment'', JBool (js_truthy (getp evt ''source_type'') \<and>
        sublist ''fulfillment'' (map lower_char (js_String (getp evt ''source_type''))))),
      (''source_api_shipment_id'', stringOrNull (getp evt ''shipstation_id'')),
      (''label_pdf_url'', JNull),
      (''status'', JStr ''active''),
      (''shipengine_label_id'', JNull),
      (''receipt_pdf_url'', JNull),
      (''usps_transaction_id'', JNull),
      (''shipstation_actual_shipment_id'', stringOrNull (getp evt ''shipstation_id'')),
      (''create_date_shipstation'', toIsoOrNull parseDate (getp evt ''create_date''))
     ]"

definition makeShipmentRowFromShipEngineEvent ::
  "(jsval \<Rightarrow> string option) \<Rightarrow> jsobj \<Rightarrow> jsobj option \<Rightarrow> jsobj" where
  "makeShipmentRowFromShipEngineEvent parseDate evt orderRow =
     [
      (''source'', JStr ''shipengine''),
      (''type'', JNull),
      (''shipstation_numeric_shipment_id'', JNull),
      (''fulfillment_id'', JNull),
      (''order_id'', stringOrNull (orderIdOf orderRow)),
      (''order_number'', js_or (getp evt ''order_number'') JNull),
      (''user_id'', JNull),
      (''customer_email'', JNull),
      (''tracking_number'', js_or (getp evt ''tracking_number'') JNull),
      (''create_date'', toIsoOrNull parseDate (getp evt ''create_date'')),
      (''ship_date'', js_or (toIsoOrNull parseDate (getp evt ''ship_date'')) (toIsoOrNull parseDate (getp evt ''create_date''))),
      (''void_date'', toIsoOrNull parseDate (getp evt ''voided_at'')),
      (''delivery_date'', JNull),
      (''carrier_code'', js_or (getp evt ''carrier_code'') JNull),
      (''service_code'', js_or (getp evt ''service_code'') JNull),
      (''package_code'', js_or (getp evt ''package_code'') JNull),
      (''confirmation'', JNull),
      (''warehouse_id'', JNull),
      (''shipment_cost'', js_or (getp evt ''shipping_amount'') JNull),
      (''insurance_cost'', js_or (getp evt ''insurance_amount'') JNull),
      (''fulfillment_fee'', JNull),
      (''void_requested'', JNull),
      (''voided'', js_or (getp evt ''voided'') JNull),
      (''marketplace_notified'', JNull),
      (''notify_error_message'', JNull),
      (''ship_to_name'', js_or (getp evt ''ship_to_name'') JNull),
      (''ship_to_company'', js_or (getp evt ''ship_to_company'') JNull),
      (''ship_to_street1'', js_or (getp evt ''ship_to_street1'') JNull),
      (''ship_to_street2'', js_or (getp evt ''ship_to_street2'') JNull),
      (''ship_to_street3'', js_or (getp evt ''ship_to_street3'') JNull),
      (''ship_to_city'', js_or (getp evt ''ship_to_city'') JNull),
      (''ship_to_state'', js_or (getp evt ''ship_to_state'') JNull),
      (''ship_to_postal_code'', js_or (getp evt ''ship_to_postal_code'') JNull),
      (''ship_to_country'', js_or (getp evt ''ship_to_country'') JNull),
      (''ship_to_phone'', js_or (getp evt ''ship_to_phone'') JNull),
      (''ship_to_residential'', js_or (getp evt ''ship_to_residential'') JNull),
      (''shipment_items'', JNull),
      (''created_at'', JNull),
      (''is_fulfillment'', JBool False),
      (''source_api_shipment_id'', js_or (getp evt ''shipengine_id'') JNull),
      (''label_pdf_url'', JNull),
      (''status'', JStr ''active''),
      (''shipengine_label_id'', js_or (getp evt ''shipengine_id'') JNull),
      (''receipt_pdf_url'', JNull),
      (''usps_transaction_id'', JNull),
      (''shipstation_actual_shipment_id'', JNull),
      (''create_date_shipstation'', JNull)
     ]"

text \<open>
  \<^verbatim>\<open>buildUpdateForMissingFields\<close>: the loop over \<^verbatim>\<open>Object.entries(candidate)\<close>.
\<close>

definition buildUpdateForMissingFields :: "jsobj \<Rightarrow> jsobj \<Rightarrow> jsobj" where
  "buildUpdateForMissingFields existing candidate =
     foldl (\<lambda>update (k, v).
              if v = JNull then update
              else if getp existing k = JNull then put k v update
              else update) [] candidate"

text \<open>
  \<^verbatim>\<open>buildOrderMaps\<close>: \<open>byComposite\<close> is keyed by \<^verbatim>\<open>`${on}|${sid ?? 'null'}`\<close> and the last row
  of a key stays; \<open>byNumber\<close> is keyed by the order number and the first row stays.
\<close>

definition compositeKey :: "jsval \<Rightarrow> jsval \<Rightarrow> string" where
  "compositeKey on' sid = js_String on' @ ''|'' @ (if sid = JNull then ''null'' else js_String sid)"

definition buildOrderMaps :: "jsobj list \<Rightarrow> (string \<times> jsobj) list \<times> (jsval \<times> jsobj) list" where
  "buildOrderMaps ordersList =
     foldl (\<lambda>(byComposite, byNumber) r.
              (put (compositeKey (getp r ''order_number'') (getp r ''store_id'')) r byComposite,
               if map_of byNumber (getp r ''order_number'') = None
               then put (getp r ''order_number'') r byNumber else byNumber))
       ([], []) ordersList"

definition buildExistingShipmentMap :: "jsobj list \<Rightarrow> (jsval \<times> jsobj) list" where
  "buildExistingShipmentMap rows =
     foldl (\<lambda>m r. if js_truthy (getp r ''tracking_number'') then put (getp r ''tracking_number'') r m
                   else m) [] rows"

text \<open>
  The store. A select answers with the columns it names; \<^verbatim>\<open>insert\<close> appends the rows, each
  with a new id; \<^verbatim>\<open>update(u).eq('id', id)\<close> writes the properties of \<open>u\<close> into every row of
  that id.
\<close>

definition selectCols :: "string list \<Rightarrow> jsobj \<Rightarrow> jsobj" where
  "selectCols cols row = map (\<lambda>c. (c, getp row c)) cols"

definition insertRows :: "jsobj list \<Rightarrow> jsobj list \<Rightarrow> jsobj list" where
  "insertRows table rows = foldl (\<lambda>t r. t @ [(''id'', JNum (int (length t) + 1)) # r]) table rows"

definition updateById :: "jsobj list \<Rightarrow> jsval \<Rightarrow> jsobj \<Rightarrow> jsobj list" where
  "updateById table rid u =
     map (\<lambda>r. if rid \<noteq> JNull \<and> getp r ''id'' = rid then foldl (\<lambda>r' (k, v). put k v r') r u else r)
       table"

text \<open>
  The columns the merger selects of an existing shipment, in the batched job and in
  \<^verbatim>\<open>findShipmentByTracking\<close>.
\<close>

definition existingShipmentCols :: "string list" where
  "existingShipmentCols =
     [''id'', ''tracking_number'', ''order_number'', ''order_id'', ''create_date'', ''ship_date'',
      ''carrier_code'', ''service_code'', ''package_code'', ''source'', ''source_api_shipment_id'',
      ''shipengine_label_id'', ''shipstation_actual_shipment_id'']"

definition findShipmentCols :: "string list" where
  "findShipmentCols =
     [''id'', ''order_number'', ''order_id'', ''tracking_number'', ''create_date'', ''ship_date'',
      ''carrier_code'', ''service_code'', ''package_code'', ''source'', ''source_api_shipment_id'',
      ''shipengine_label_id'', ''shipstation_actual_shipment_id'']"

text \<open>
  One page of \<^verbatim>\<open>processShipStationEvents\<close>, batched (the job as it is now): the page's
  tracking numbers and order numbers, one lookup each, the events split into inserts and
  updates, and the writes. The state is the pair of the tables \<^verbatim>\<open>shipments\<close> and
  \<^verbatim>\<open>orders\<close>.
\<close>

definition pageTrackings :: "jsobj list \<Rightarrow> string list" where
  "pageTrackings rows =
     remdups (filter (\<lambda>t. t \<noteq> []) (map (\<lambda>e. trimmed (getp e ''tracking_number'')) rows))"

definition pageOrderNumbers :: "jsobj list \<Rightarrow> jsval list" where
  "pageOrderNumbers rows = remdups (filter js_truthy (map (\<lambda>e. getp e ''order_number'') rows))"

definition lookupExisting :: "jsobj list \<Rightarrow> string list \<Rightarrow> (jsval \<times> jsobj) list" where
  "lookupExisting shipments trackings =
     (if trackings = [] then []
      else buildExistingShipmentMap
             (map (selectCols existingShipmentCols)
                (filter (\<lambda>r. case getp r ''tracking_number'' of JStr t \<Rightarrow> t \<in> set trackings
                               | _ \<Rightarrow> False) shipments)))"

definition lookupOrders ::
  "jsobj list \<Rightarrow> jsval list \<Rightarrow> (string \<times> jsobj) list \<times> (jsval \<times> jsobj) list" where
  "lookupOrders orders orderNumbers =
     (if orderNumbers = [] then ([], [])
      else buildOrderMaps
             (map (selectCols [''order_id'', ''order_number'', ''store_id''])
                (filter (\<lambda>r. getp r ''order_number'' \<in> set orderNumbers) orders)))"

definition firstSome :: "'a option \<Rightarrow> 'a option \<Rightarrow> 'a option" where
  "firstSome a b = (case a of None \<Rightarrow> b | Some x \<Rightarrow> Some x)"

definition splitShipStationEvent ::
  "(jsval \<Rightarrow> string option) \<Rightarrow> (jsval \<times> jsobj) list \<Rightarrow>
   (string \<times> jsobj) list \<times> (jsval \<times> jsobj) list \<Rightarrow>
   jsobj list \<times> (jsval \<times> jsobj) list \<Rightarrow> jsobj \<Rightarrow> jsobj list \<times> (jsval \<times> jsobj) list" where
  "splitShipStationEvent parseDate existingMap orderMaps acc evt =
     (let inserts = fst acc; updates = snd acc;
          tracking = trimmed (getp evt ''tracking_number'')
      in if tracking = [] then acc
         else
           let existing = map_of existingMap (JStr tracking);
               ordKey = compositeKey (getp evt ''order_number'') (getp evt ''store_id'');
               orderRow = firstSome (map_of (fst orderMaps) ordKey)
                            (map_of (snd orderMaps) (getp evt ''order_number''));
               candidate = makeShipmentRowFromShipStationEvent parseDate evt orderRow
           in case existing of
                None \<Rightarrow> (inserts @ [candidate], updates)
              | Some ex \<Rightarrow>
                  let update = buildUpdateForMissingFields ex candidate
                  in if update \<noteq> [] then (inserts, updates @ [(getp ex ''id'', update)])
                     else acc)"

definition processShipStationPage ::
  "(jsval \<Rightarrow> string option) \<Rightarrow> jsobj list \<times> jsobj list \<Rightarrow> jsobj list \<Rightarrow> jsobj list \<times> jsobj list" where
  "processShipStationPage parseDate st rows =
     (let shipments = fst st; orders = snd st;
          existingMap = lookupExisting shipments (pageTrackings rows);
          orderMaps = lookupOrders orders (pageOrderNumbers rows);
          split = foldl (splitShipStationEvent parseDate existingMap orderMaps) ([], []) rows;
          inserted = (if fst split = [] then shipments else insertRows shipments (fst split))
      in (foldl (\<lambda>t u. updateById t (fst u) (snd u)) inserted (snd split), orders))"

text \<open>
  The same page in the job's per-event form (\<^verbatim>\<open>upsertShipmentFromShipStationEvent\<close>, called
  for each event of the page in order): each event looks the shipment and the order up
  in the store as it is then, and writes before the next event is read.
\<close>

definition findShipmentByTracking :: "jsobj list \<Rightarrow> string \<Rightarrow> jsobj option" where
  "findShipmentByTracking shipments trackingNumber =
     (if trackingNumber = [] then None
      else case filter (\<lambda>r. getp r ''tracking_number'' = JStr trackingNumber) shipments of
             [] \<Rightarrow> None
           | r # _ \<Rightarrow> Some (selectCols findShipmentCols r))"

definition findOrderByOrderNumber :: "jsobj list \<Rightarrow> jsval \<Rightarrow> jsobj option" where
  "findOrderByOrderNumber orders orderNumber =
     (if \<not> js_truthy orderNumber then None
      else case filter (\<lambda>r. getp r ''order_number'' = orderNumber) orders of
             [] \<Rightarrow> None
           | r # _ \<Rightarrow> Some (selectCols [''order_id'', ''store_id''] r))"

definition upsertShipmentFromShipStationEvent ::
  "(jsval \<Rightarrow> string option) \<Rightarrow> jsobj list \<times> jsobj list \<Rightarrow> jsobj \<Rightarrow> jsobj list \<times> jsobj list" where
  "upsertShipmentFromShipStationEvent parseDate st evt =
     (let shipments = fst st; orders = snd st;
          tracking = trimmed (getp evt ''tracking_number'')
      in if tracking = [] then st
         else
           let existing = findShipmentByTracking shipments tracking;
               orderRow = findOrderByOrderNumber orders (getp evt ''order_number'');
               candidate = makeShipmentRowFromShipStationEvent parseDate evt orderRow
           in case existing of
                None \<Rightarrow> (insertRows shipments [candidate], orders)
              | Some ex \<Rightarrow>
                  let update = buildUpdateForMissingFields ex candidate
                  in if update \<noteq> [] then (updateById shipments (getp ex ''id'') update, orders)
                     else st)"

definition processShipStationPageUnbatched ::
  "(jsval \<Rightarrow> string option) \<Rightarrow> jsobj list \<times> jsobj list \<Rightarrow> jsobj list \<Rightarrow> jsobj list \<times> jsobj list" where
  "processShipStationPageUnbatched parseDate st rows =
     foldl (upsertShipmentFromShipStationEvent parseDate) st rows"

section \<open>Order tracking backfiller\<close>

text \<open>
  \<^verbatim>\<open>jobs/fixShippedOrdersMissingTracking.js\<close>. \<^verbatim>\<open>findFromShipStation\<close> asks one query per
  clause (the order id, then the order number); \<open>answers\<close> are the store's answers in
  that order, \<open>None\<close> for an error or no row. \<^verbatim>\<open>findFromShipEngine\<close> asks one query. A
  hit is the pair \<^verbatim>\<open>{ tracking, shipDateIso }\<close>.
\<close>

definition shipStationHit :: "(jsval \<Rightarrow> string option) \<Rightarrow> jsobj \<Rightarrow> (string \<times> jsval) option" where
  "shipStationHit parseDate row =
     (let tracking = trimmed (getp row ''tracking_number'');
          shipDateIso = js_or (toIsoOrNull parseDate (getp row ''ship_date''))
                          (toIsoOrNull parseDate (getp row ''create_date''))
      in if tracking \<noteq> [] \<and> js_truthy shipDateIso then Some (tracking, shipDateIso)
         else if tracking \<noteq> [] then Some (tracking, toIsoOrNull parseDate (getp row ''create_date''))
         else None)"

fun findFromShipStation ::
  "(jsval \<Rightarrow> string option) \<Rightarrow> jsobj option list \<Rightarrow> (string \<times> jsval) option" where
  "findFromShipStation parseDate [] = None"
| "findFromShipStation parseDate (None # answers) = findFromShipStation parseDate answers"
| "findFromShipStation parseDate (Some row # answers) =
     (case shipStationHit parseDate row of
        Some hit \<Rightarrow> Some hit
      | None \<Rightarrow> findFromShipStation parseDate answers)"

definition findFromShipEngine ::
  "(jsval \<Rightarrow> string option) \<Rightarrow> jsobj option \<Rightarrow> (string \<times> jsval) option" where
  "findFromShipEngine parseDate answer =
     (case answer of
        None \<Rightarrow> None
      | Some row \<Rightarrow>
          let tracking = trimmed (getp row ''tracking_number'');
              shipDateIso = js_or (toIsoOrNull parseDate (getp row ''ship_date''))
                              (toIsoOrNull parseDate (getp row ''create_date''))
          in if tracking = [] then None else Some (tracking, shipDateIso))"

text \<open>
  The update of the order, from the hit: \<^verbatim>\<open>tracking_number\<close> when the tracking is not
  empty, \<^verbatim>\<open>actual_ship_date\<close> when the date is not empty.
\<close>

definition buildOrderUpdate :: "string \<times> jsval \<Rightarrow> jsobj" where
  "buildOrderUpdate found =
     (let tracking = fst found; shipDateIso = snd found;
          u1 = (if tracking \<noteq> [] then put ''tracking_number'' (JStr tracking) [] else [])
      in if js_truthy shipDateIso then put ''actual_ship_date'' shipDateIso u1 else u1)"

section \<open>Shipment stock deduction\<close>

text \<open>
  Step 6 of \<^verbatim>\<open>runOnce\<close>. Rows of \<^verbatim>\<open>inventory_movements\<close> and of
  \<^verbatim>\<open>inventory_stock_levels\<close> (joined with the type of the location) with the columns the
  step reads and writes; ids are text, as \<^verbatim>\<open>String(id)\<close> gives them.
\<close>

record movement =
  mv_id :: string
  mv_sku :: "string option"
  mv_reference_type :: "string option"
  mv_reference_id :: "string option"
  mv_reason :: "string option"
  mv_notes :: "string option"
  mv_created_at :: nat

record stock_level =
  sl_id :: string
  sl_item_type :: string
  sl_item_id :: string
  sl_on_hand :: "int option"
  sl_available :: "int option"
  sl_location_type :: string
  sl_updated_at :: string

text \<open>
  A line of the payload \<^verbatim>\<open>shipment_items\<close>, with the spellings the loop reads
  (\<^verbatim>\<open>sku\<close>, \<^verbatim>\<open>SKU\<close>, \<^verbatim>\<open>product.sku\<close>; \<^verbatim>\<open>quantity\<close>, \<^verbatim>\<open>Quantity\<close>, \<^verbatim>\<open>qty\<close>). A quantity is a
  number; one that \<^verbatim>\<open>Number\<close> cannot read is skipped like \<open>0\<close>. The payload is an array,
  or an object with \<^verbatim>\<open>items\<close> or \<^verbatim>\<open>ShipmentItems\<close>, or anything else.
\<close>

record line_item =
  li_sku :: "string option"
  li_SKU :: "string option"
  li_product_sku :: "string option"
  li_quantity :: "int option"
  li_Quantity :: "int option"
  li_qty :: "int option"

datatype shipment_items =
  ItemsArray "line_item list"
| ItemsObject "line_item list option" "line_item list option"
| ItemsOther

record shipment =
  sh_id :: string
  sh_shipment_items :: shipment_items
  sh_order_number :: "string option"

definition itemsOf :: "shipment_items \<Rightarrow> line_item list" where
  "itemsOf raw =
     (case raw of
        ItemsArray xs \<Rightarrow> xs
      | ItemsObject items shipmentItems \<Rightarrow>
          (case items of Some xs \<Rightarrow> xs
           | None \<Rightarrow> (case shipmentItems of Some ys \<Rightarrow> ys | None \<Rightarrow> []))
      | ItemsOther \<Rightarrow> [])"

text \<open>\<^verbatim>\<open>a || b\<close> on nullable strings, and \<^verbatim>\<open>String(a || '')\<close>.\<close>

definition orElse :: "string option \<Rightarrow> string option \<Rightarrow> string option" where
  "orElse a b = (if truthy a then a else b)"

definition strOrEmpty :: "string option \<Rightarrow> string" where
  "strOrEmpty a = (case a of None \<Rightarrow> [] | Some s \<Rightarrow> s)"

definition lineSku :: "line_item \<Rightarrow> string option" where
  "lineSku itm = orElse (li_sku itm) (orElse (li_SKU itm) (orElse (li_product_sku itm) None))"

definition lineQty :: "line_item \<Rightarrow> int" where
  "lineQty itm =
     (case li_quantity itm of Some q \<Rightarrow> q
      | None \<Rightarrow> (case li_Quantity itm of Some q \<Rightarrow> q
                  | None \<Rightarrow> (case li_qty itm of Some q \<Rightarrow> q | None \<Rightarrow> 1)))"

text \<open>The map \<^verbatim>\<open>qtyBySku\<close>, in insertion order.\<close>

definition groupBySku :: "js_text \<Rightarrow> line_item list \<Rightarrow> (string \<times> int) list" where
  "groupBySku rt items =
     foldl (\<lambda>qtyBySku itm.
              if truthy (lineSku itm) \<and> lineQty itm \<noteq> 0
              then put (normalizeSku rt (lineSku itm))
                     (orZero (map_of qtyBySku (normalizeSku rt (lineSku itm))) + lineQty itm) qtyBySku
              else qtyBySku) [] items"

text \<open>
  What the store answers to the calls of one iteration of the line loop. A lookup may
  fail: its \<^verbatim>\<open>data\<close> is then \<^verbatim>\<open>null\<close>. The first lookup may also throw, which ends the
  \<^verbatim>\<open>try\<close> block before the second one (a second lookup that throws leaves \<^verbatim>\<open>null\<close>, like
  one that fails). A lookup with \<^verbatim>\<open>limit(1)\<close> answers one of the rows that pass its filters
  and come first in the order it asks for, and which one is the store's choice: the
  answer gives it as a position among those rows. An update may fail, and then changes no
  row.
\<close>

record store_answer =
  an_byShipmentThrows :: bool
  an_byShipmentErr :: bool
  an_byShipmentRow :: nat
  an_byOrderNoteErr :: bool
  an_byOrderNoteRow :: nat
  an_stockFindErr :: bool
  an_stockRow :: nat
  an_updErr :: bool
  an_movUpdErr :: bool

definition limit1 :: "nat \<Rightarrow> 'a list \<Rightarrow> 'a option" where
  "limit1 choice rows = (if rows = [] then None else Some (rows ! (choice mod length rows)))"

text \<open>The rows that come first in a descending order: those with no row above them.\<close>

definition topRows :: "('a \<Rightarrow> 'a \<Rightarrow> bool) \<Rightarrow> 'a list \<Rightarrow> 'a list" where
  "topRows gt rows = filter (\<lambda>r. list_all (\<lambda>r'. \<not> gt r' r) rows) rows"

text \<open>
  \<^verbatim>\<open>ilike\<close>, the pattern match of the store without regard to case (\<open>cfold\<close> is the store's
  case folding of a character): in a pattern, \<open>%\<close> stands for any text, \<open>_\<close> for any one
  character, and a backslash takes the next character literally. The request carries the
  pattern as \<^verbatim>\<open>notes=ilike.<pattern>\<close>, where the store reads \<open>*\<close> as \<open>%\<close>. The order number
  goes into the pattern \<^verbatim>\<open>`%${s.order_number}%`\<close> as it is.
\<close>

fun likeMatch :: "(char \<Rightarrow> char) \<Rightarrow> string \<Rightarrow> string \<Rightarrow> bool" where
  "likeMatch cfold [] t = (t = [])"
| "likeMatch cfold (p # ps) [] =
     (if p = CHR ''%'' then likeMatch cfold ps [] else False)"
| "likeMatch cfold (p # ps) (c # cs) =
     (if p = CHR ''%'' then likeMatch cfold ps (c # cs) \<or> likeMatch cfold (p # ps) cs
      else if p = CHR ''_'' then likeMatch cfold ps cs
      else if p = CHR 0x5C
      then (case ps of [] \<Rightarrow> False | q # qs \<Rightarrow> cfold c = cfold q \<and> likeMatch cfold qs cs)
      else cfold c = cfold p \<and> likeMatch cfold ps cs)"

definition ilikePattern :: "string \<Rightarrow> string" where
  "ilikePattern orderNumber =
     map (\<lambda>c. if c = CHR ''*'' then CHR ''%'' else c) (''%'' @ orderNumber @ ''%'')"

definition refersTo :: "shipment \<Rightarrow> movement \<Rightarrow> bool" where
  "refersTo s m = (mv_reference_type m = Some ''shipment'' \<and> mv_reference_id m = Some (sh_id s))"

definition notesOrder :: "(char \<Rightarrow> char) \<Rightarrow> string \<Rightarrow> movement \<Rightarrow> bool" where
  "notesOrder cfold orderNumber m =
     (mv_reason m = Some ''order_shipment'' \<and>
      (case mv_notes m of None \<Rightarrow> False | Some n \<Rightarrow> likeMatch cfold (ilikePattern orderNumber) n))"

definition newer :: "movement \<Rightarrow> movement \<Rightarrow> bool" where
  "newer b m = (mv_created_at b > mv_created_at m)"

text \<open>
  The marker. First a movement that references the shipment (no order is asked for);
  else, for a shipment with an order number, a movement among the most recent ones of
  reason \<open>order_shipment\<close> whose notes match \<^verbatim>\<open>ilike '%<order number>%'\<close>. Neither lookup
  filters by SKU.
\<close>

definition byShipment :: "store_answer \<Rightarrow> movement list \<Rightarrow> shipment \<Rightarrow> movement option" where
  "byShipment an movs s =
     (if an_byShipmentErr an then None
      else limit1 (an_byShipmentRow an) (filter (refersTo s) movs))"

definition byOrderNote ::
  "(char \<Rightarrow> char) \<Rightarrow> store_answer \<Rightarrow> movement list \<Rightarrow> string \<Rightarrow> movement option" where
  "byOrderNote cfold an movs orderNumber =
     (if an_byOrderNoteErr an then None
      else limit1 (an_byOrderNoteRow an) (topRows newer (filter (notesOrder cfold orderNumber) movs)))"

definition findMovement ::
  "(char \<Rightarrow> char) \<Rightarrow> store_answer \<Rightarrow> movement list \<Rightarrow> shipment \<Rightarrow> movement option" where
  "findMovement cfold an movs s =
     (if an_byShipmentThrows an then None
      else
        case byShipment an movs s of
          Some m \<Rightarrow> Some m
        | None \<Rightarrow>
            (case sh_order_number s of
               None \<Rightarrow> None
             | Some orderNumber \<Rightarrow>
                 if orderNumber = [] then None else byOrderNote cfold an movs orderNumber))"

definition alreadyReconciled :: "movement \<Rightarrow> bool" where
  "alreadyReconciled m =
     (case mv_notes m of None \<Rightarrow> False | Some n \<Rightarrow> sublist ''Reconciled via cron'' n)"

text \<open>
  \<^verbatim>\<open>resolved.product?.id\<close> and \<^verbatim>\<open>resolved.client?.id\<close>: the id of a row; a text or a
  function has no property \<^verbatim>\<open>id\<close>.
\<close>

definition memberId :: "('a \<Rightarrow> string option) \<Rightarrow> 'a member option \<Rightarrow> string option" where
  "memberId rowId m =
     (case m of
        Some (OwnEntry r) \<Rightarrow> rowId r
      | Some (ProtoObject r) \<Rightarrow> rowId r
      | _ \<Rightarrow> None)"

text \<open>
  The item a resolution stands for: its type and id, or \<open>None\<close> where the loop warns
  \<^verbatim>\<open>unresolved SKU\<close> and goes on.
\<close>

definition itemOf :: "resolved \<Rightarrow> (string \<times> string) option" where
  "itemOf r =
     (if matchType r = Some ''client_product''
      then (let itemId = strOrEmpty (memberId ci_id (res_client r))
            in if itemId = [] then None else Some (''client_product'', itemId))
      else if matchType r = Some ''product''
      then (let itemId = strOrEmpty (memberId p_id (res_product r))
            in if itemId = [] then None else Some (''product'', itemId))
      else None)"

text \<open>
  The stock row: of the item, at a location of type \<open>Batch\<close> or \<open>Production\<close>, ordered by
  \<open>available\<close> descending (a null sorts first, as the store sorts it), one of the rows that
  come first.
\<close>

definition stockCandidate :: "string \<Rightarrow> string \<Rightarrow> stock_level \<Rightarrow> bool" where
  "stockCandidate itemType itemId r =
     (sl_item_type r = itemType \<and> sl_item_id r = itemId \<and>
      (sl_location_type r = ''Batch'' \<or> sl_location_type r = ''Production''))"

definition moreAvailable :: "stock_level \<Rightarrow> stock_level \<Rightarrow> bool" where
  "moreAvailable b m =
     (case sl_available b of
        None \<Rightarrow> sl_available m \<noteq> None
      | Some x \<Rightarrow> (case sl_available m of None \<Rightarrow> False | Some y \<Rightarrow> x > y))"

definition bestStock :: "store_answer \<Rightarrow> stock_level list \<Rightarrow> string \<Rightarrow> string \<Rightarrow> stock_level option" where
  "bestStock an rows itemType itemId =
     limit1 (an_stockRow an) (topRows moreAvailable (filter (stockCandidate itemType itemId) rows))"

text \<open>\<^verbatim>\<open>stock?.available ?? stock?.on_hand ?? 0\<close>\<close>

definition availableOf :: "stock_level \<Rightarrow> int" where
  "availableOf stock = (case sl_available stock of Some a \<Rightarrow> a | None \<Rightarrow> orZero (sl_on_hand stock))"

text \<open>
  The state of the step: the two tables it writes, the record of the updates the store
  applied for it, and the answers of the store, one for each iteration of the line loop
  that reaches the store, with the number of answers taken so far. Each entry of the
  record names the shipment and SKU of the iteration that issued the update: the stock
  update with the row's id and new \<open>on_hand\<close>, the movement update with the row's id and
  new notes.
\<close>

datatype store_write =
  StockWrite shipment string string int
| MovementWrite shipment string string string

record recon_state =
  stocks :: "stock_level list"
  movements :: "movement list"
  writes :: "store_write list"
  storeAnswers :: "nat \<Rightarrow> store_answer"
  answersTaken :: nat

text \<open>
  What a run holds fixed: the text built-ins, the case folding of the store, the catalog
  maps of \<^verbatim>\<open>buildSkuMaps\<close>, the client SKU map, and the time.
\<close>

record recon_env =
  env_text :: js_text
  env_fold :: "char \<Rightarrow> char"
  env_productMap :: "product_row jsdict"
  env_bundleMap :: "bundle_row jsdict"
  env_clientSkuMap :: "client_row jsdict"
  env_now :: string

definition updatedNotes :: "movement \<Rightarrow> string" where
  "updatedNotes movementForRecon =
     (if truthy (mv_notes movementForRecon) then strOrEmpty (mv_notes movementForRecon) @ '' | ''
      else []) @ ''Reconciled via cron''"

definition deductStock :: "string \<Rightarrow> stock_level \<Rightarrow> int \<Rightarrow> stock_level list \<Rightarrow> stock_level list" where
  "deductStock now stock qty rows =
     map (\<lambda>r. if sl_id r = sl_id stock
               then r\<lparr>sl_on_hand := Some (orZero (sl_on_hand stock) - qty), sl_updated_at := now\<rparr>
               else r) rows"

definition stampMovement :: "movement \<Rightarrow> string \<Rightarrow> movement list \<Rightarrow> movement list" where
  "stampMovement movementForRecon skuCanon movs =
     map (\<lambda>m. if mv_id m = mv_id movementForRecon
               then m\<lparr>mv_notes := Some (updatedNotes movementForRecon),
                      mv_sku := (if truthy (mv_sku movementForRecon) then mv_sku m else Some skuCanon)\<rparr>
               else m) movs"

text \<open>
  The body of \<^verbatim>\<open>for (const [skuCanon, qty] of qtyBySku.entries())\<close>. An iteration that
  reaches the store takes the next answer. A failed stock update ends the iteration; a
  failed movement update is logged, and the iteration ends with the stock deducted and
  the marker as it was.
\<close>

definition processLine :: "recon_env \<Rightarrow> shipment \<Rightarrow> recon_state \<Rightarrow> string \<times> int \<Rightarrow> recon_state" where
  "processLine env s st entry =
     (let skuCanon = fst entry; qty = snd entry;
          an = storeAnswers st (answersTaken st);
          taken = st\<lparr>answersTaken := Suc (answersTaken st)\<rparr>
      in if skuCanon = [] then st
         else if qty = 0 then st
         else
           case findMovement (env_fold env) an (movements st) s of
             None \<Rightarrow> taken
           | Some movementForRecon \<Rightarrow>
               if alreadyReconciled movementForRecon then taken
               else
                 case itemOf (resolveSku (env_text env) (Some skuCanon) (env_productMap env)
                                (env_bundleMap env) (env_clientSkuMap env)) of
                   None \<Rightarrow> taken
                 | Some item \<Rightarrow>
                     if an_stockFindErr an then taken
                     else
                       (case bestStock an (stocks st) (fst item) (snd item) of
                          None \<Rightarrow> taken
                        | Some stock \<Rightarrow>
                            if availableOf stock < qty then taken
                            else if an_updErr an then taken
                            else if an_movUpdErr an
                            then taken
                              \<lparr>stocks := deductStock (env_now env) stock qty (stocks st),
                               writes := writes st @
                                 [StockWrite s skuCanon (sl_id stock)
                                    (orZero (sl_on_hand stock) - qty)]\<rparr>
                            else taken
                              \<lparr>stocks := deductStock (env_now env) stock qty (stocks st),
                               movements := stampMovement movementForRecon skuCanon (movements st),
                               writes := writes st @
                                 [StockWrite s skuCanon (sl_id stock)
                                    (orZero (sl_on_hand stock) - qty),
                                  MovementWrite s skuCanon (mv_id movementForRecon)
                                    (updatedNotes movementForRecon)]\<rparr>))"

definition processShipment :: "recon_env \<Rightarrow> recon_state \<Rightarrow> shipment \<Rightarrow> recon_state" where
  "processShipment env st s =
     foldl (processLine env s) st (groupBySku (env_text env) (itemsOf (sh_shipment_items s)))"

text \<open>Step 6 of a run, over the shipments the paged query answers.\<close>

definition reconcileShipments ::
  "recon_env \<Rightarrow> int \<Rightarrow> int \<Rightarrow> (int \<Rightarrow> int \<Rightarrow> shipment list option) \<Rightarrow> recon_state \<Rightarrow> recon_state" where
  "reconcileShipments env RECON_MAX_PAGES RECON_PAGE_SIZE fetch st =
     fst (reconLoop RECON_MAX_PAGES RECON_PAGE_SIZE fetch (processShipment env) 0 st [])"

text \<open>
  Step 6 is reached when the steps before it do not return: the order items are
  fetched, they give some demand, and the three fetches of steps 2 to 4 answer. The
  demand is the map of step 1, in insertion order. The alert loop in between writes the
  alerts only. \<^verbatim>\<open>buildClientSkuMap\<close> is not among the exports of \<^verbatim>\<open>skuResolver.js\<close>; the map
  it would give is an input.
\<close>

record order_item =
  oi_sku :: "string option"
  oi_quantity :: "int option"

definition queuedDemand ::
  "js_text \<Rightarrow> product_row jsdict \<Rightarrow> bundle_row jsdict \<Rightarrow> order_item list \<Rightarrow> (string \<times> int) list" where
  "queuedDemand rt productMap bundleMap orderItems =
     foldl (\<lambda>demand it.
              let resolved = resolveSku rt (oi_sku it) productMap bundleMap (JsDict [] None);
                  base = normalizeSku rt (Some (baseSku resolved))
              in if base = [] then demand
                 else put base (orZero (map_of demand base) + orZero (oi_quantity it)) demand)
       [] orderItems"

record run_input =
  in_text :: js_text
  in_fold :: "char \<Rightarrow> char"
  in_now :: string
  in_ordersErr :: bool
  in_orderItems :: "order_item list"
  in_products :: "product_row list"
  in_bundles :: "bundle_row list"
  in_ciErr :: bool
  in_clientSkuMap :: "client_row jsdict"
  in_pickErr :: bool
  in_stockErr :: bool

definition runEnv :: "run_input \<Rightarrow> recon_env" where
  "runEnv inp =
     (let maps = buildSkuMaps (in_text inp) (in_products inp) (in_bundles inp)
      in \<lparr>env_text = in_text inp, env_fold = in_fold inp, env_productMap = fst maps,
          env_bundleMap = snd maps, env_clientSkuMap = in_clientSkuMap inp,
          env_now = in_now inp\<rparr>)"

definition runOnce ::
  "run_input \<Rightarrow> int \<Rightarrow> int \<Rightarrow> (int \<Rightarrow> int \<Rightarrow> shipment list option) \<Rightarrow> recon_state \<Rightarrow> recon_state" where
  "runOnce inp RECON_MAX_PAGES RECON_PAGE_SIZE fetch st =
     (if in_ordersErr inp then st
      else
        let env = runEnv inp;
            demand = queuedDemand (in_text inp) (env_productMap env) (env_bundleMap env)
                       (in_orderItems inp)
        in if demand = [] then st
           else if in_ciErr inp then st
           else if in_pickErr inp then st
           else if in_stockErr inp then st
           else reconcileShipments env RECON_MAX_PAGES RECON_PAGE_SIZE fetch st)"

text \<open>\<open>n\<close> runs one after the other, with the same inputs and over the same shipments.\<close>

fun runs ::
  "nat \<Rightarrow> run_input \<Rightarrow> int \<Rightarrow> int \<Rightarrow> (int \<Rightarrow> int \<Rightarrow> shipment list option) \<Rightarrow> recon_state \<Rightarrow> recon_state" where
  "runs 0 inp RECON_MAX_PAGES RECON_PAGE_SIZE fetch st = st"
| "runs (Suc n) inp RECON_MAX_PAGES RECON_PAGE_SIZE fetch st =
     runOnce inp RECON_MAX_PAGES RECON_PAGE_SIZE fetch
       (runs n inp RECON_MAX_PAGES RECON_PAGE_SIZE fetch st)"

text \<open>The updates of the record that were issued for a shipment.\<close>

definition writesOfShipment :: "shipment \<Rightarrow> store_write list \<Rightarrow> store_write list" where
  "writesOfShipment s ws =
     filter (\<lambda>w. case w of StockWrite s' _ _ _ \<Rightarrow> s' = s | MovementWrite s' _ _ _ \<Rightarrow> s' = s) ws"

text \<open>
  A movement is a candidate of the marker lookup for a shipment when it references the
  shipment, or when the shipment has an order number and the movement is an
  \<open>order_shipment\<close> whose notes match the pattern made of it.
\<close>

definition markerFor :: "(char \<Rightarrow> char) \<Rightarrow> shipment \<Rightarrow> movement \<Rightarrow> bool" where
  "markerFor cfold s m =
     (refersTo s m \<or>
      (case sh_order_number s of None \<Rightarrow> False
       | Some orderNumber \<Rightarrow> orderNumber \<noteq> [] \<and> notesOrder cfold orderNumber m))"

text \<open>
  The invariant behind the skip: every candidate of the shipment carries the stamp.
\<close>

definition noLiveMarker :: "(char \<Rightarrow> char) \<Rightarrow> shipment \<Rightarrow> movement list \<Rightarrow> bool" where
  "noLiveMarker cfold s movs = (\<forall>m \<in> set movs. markerFor cfold s m \<longrightarrow> alreadyReconciled m)"

text \<open>
  The fallback marker as C7 words it: an \<open>order_shipment\<close> movement whose notes contain
  the order number, here without regard to case.
\<close>

definition containsOrderNumber :: "string \<Rightarrow> movement \<Rightarrow> bool" where
  "containsOrderNumber orderNumber m =
     (mv_reason m = Some ''order_shipment'' \<and>
      (case mv_notes m of None \<Rightarrow> False
       | Some n \<Rightarrow> sublist (map lower_char orderNumber) (map lower_char n)))"

text \<open>
  What a state shows of the tables and of the record: \<open>on_hand\<close> of every stock row, the
  notes of every movement, and for every update of the record the shipment, the SKU, the
  table and the id of the row.
\<close>

definition writeLog :: "store_write list \<Rightarrow> (string \<times> string \<times> string \<times> string) list" where
  "writeLog ws =
     map (\<lambda>w. case w of
                 StockWrite s sku k n \<Rightarrow> (sh_id s, sku, ''inventory_stock_levels'', k)
               | MovementWrite s sku m t \<Rightarrow> (sh_id s, sku, ''inventory_movements'', m)) ws"

definition reconOutcome ::
  "recon_state \<Rightarrow> int option list \<times> string option list \<times> (string \<times> string \<times> string \<times> string) list" where
  "reconOutcome st = (map sl_on_hand (stocks st), map mv_notes (movements st), writeLog (writes st))"

text \<open>The store when every call succeeds and answers the first of the rows to choose from.\<close>

definition allSucceed :: store_answer where
  "allSucceed =
     \<lparr>an_byShipmentThrows = False, an_byShipmentErr = False, an_byShipmentRow = 0,
      an_byOrderNoteErr = False, an_byOrderNoteRow = 0, an_stockFindErr = False,
      an_stockRow = 0, an_updErr = False, an_movUpdErr = False\<rparr>"

section \<open>Properties of the SKU resolver\<close>

lemma foldl_tryPrefix:
  "(foldl (tryPrefix norm) acc keys = acc \<or>
      foldl (tryPrefix norm) acc keys \<in> set keys \<and> prefix (foldl (tryPrefix norm) acc keys) norm) \<and>
   length acc \<le> length (foldl (tryPrefix norm) acc keys) \<and>
   (\<forall>k \<in> set keys. prefix k norm \<longrightarrow> length k \<le> length (foldl (tryPrefix norm) acc keys))"
proof (induction keys arbitrary: acc)
  case Nil
  show ?case by simp
next
  case (Cons k keys)
  let ?acc' = "tryPrefix norm acc k"
  have step: "?acc' = acc \<and> \<not> (prefix k norm \<and> length k > length acc) \<or>
              ?acc' = k \<and> prefix k norm \<and> length k > length acc"
    by (simp add: tryPrefix_def)
  from Cons.IH [of ?acc'] step show ?case
    by (auto simp: not_less)
qed

lemma best_prefix_found:
  assumes "k \<in> set keys" and "prefix k norm" and "k \<noteq> []"
  shows "foldl (tryPrefix norm) [] keys \<noteq> [] \<and>
         longest_prefix_key keys norm (foldl (tryPrefix norm) [] keys)"
proof -
  let ?b = "foldl (tryPrefix norm) [] keys"
  from foldl_tryPrefix [of norm "[]" keys]
  have a: "?b = [] \<or> ?b \<in> set keys \<and> prefix ?b norm"
    and c: "\<forall>k \<in> set keys. prefix k norm \<longrightarrow> length k \<le> length ?b"
    by blast+
  from c assms have "length k \<le> length ?b" by blast
  with assms(3) have ne: "?b \<noteq> []" by auto
  with a c show ?thesis
    by (simp add: longest_prefix_key_def list_all_iff)
qed

lemma best_prefix_none:
  assumes "\<forall>k \<in> set keys. \<not> prefix k norm"
  shows "foldl (tryPrefix norm) [] keys = []"
  using foldl_tryPrefix [of norm "[]" keys] assms by blast

lemma normalizeSku_falsy:
  "toLowerCase rt [] = [] \<Longrightarrow> \<not> truthy rawSku \<Longrightarrow> normalizeSku rt rawSku = []"
  by (auto simp: truthy_def normalizeSku_def split: option.splits)

lemma set_dictKeys: "set (dictKeys d) = fst ` set (dict_own d)"
  by (auto simp: dictKeys_def Let_def)

lemma dictGet_registered:
  assumes "k \<in> set (dictKeys d)"
  shows "dictGet props d k = registered d k \<and> memberTruthy (dictGet props d k)"
proof -
  from assms have "k \<in> fst ` set (dict_own d)"
    by (simp add: set_dictKeys)
  then have "map_of (dict_own d) k \<noteq> None"
    by (simp add: map_of_eq_None_iff)
  then obtain v where "map_of (dict_own d) k = Some v"
    by blast
  then show ?thesis
    by (simp add: dictGet_def registered_def memberTruthy_def)
qed

lemma dictGet_unregistered:
  assumes "k \<notin> set (dictKeys d)"
  shows "dictGet props d k = protoGet props d k"
proof -
  from assms have "k \<notin> fst ` set (dict_own d)"
    by (simp add: set_dictKeys)
  then have "map_of (dict_own d) k = None"
    by (simp add: map_of_eq_None_iff)
  then show ?thesis
    by (simp add: dictGet_def)
qed

text \<open>
  Plain objects on examples: the keys in the order of \<^verbatim>\<open>Object.keys\<close>; a later row of the
  same normalized key replaces the earlier one; a product whose SKU is \<open>__proto__\<close>
  becomes the prototype of the map and registers no key, after which the map answers the
  row's own properties; an empty map answers the members of \<^verbatim>\<open>Object.prototype\<close>.
\<close>

lemma jsdict_examples:
  "dictKeys (fst (buildSkuMaps asciiText
      [\<lparr>p_id = Some ''1'', p_Sku = Some ''B 1''\<rparr>, \<lparr>p_id = Some ''2'', p_Sku = Some ''10''\<rparr>,
       \<lparr>p_id = Some ''3'', p_Sku = Some ''9''\<rparr>, \<lparr>p_id = Some ''4'', p_Sku = Some ''b1''\<rparr>,
       \<lparr>p_id = Some ''5'', p_Sku = None\<rparr>] [])) = [''9'', ''10'', ''b1''] \<and>
   dictGet productProps (fst (buildSkuMaps asciiText
      [\<lparr>p_id = Some ''1'', p_Sku = Some ''B 1''\<rparr>, \<lparr>p_id = Some ''4'', p_Sku = Some ''b1''\<rparr>] []))
      ''b1'' = Some (OwnEntry \<lparr>p_id = Some ''4'', p_Sku = Some ''b1''\<rparr>) \<and>
   fst (buildSkuMaps asciiText [\<lparr>p_id = Some ''7'', p_Sku = Some ''__proto__''\<rparr>] [])
     = JsDict [] (Some \<lparr>p_id = Some ''7'', p_Sku = Some ''__proto__''\<rparr>) \<and>
   dictGet productProps (JsDict [] (Some \<lparr>p_id = Some ''7'', p_Sku = Some ''__proto__''\<rparr>)) ''id''
     = Some (ProtoField (Some ''7'')) \<and>
   dictGet productProps (JsDict [] (Some \<lparr>p_id = Some ''7'', p_Sku = Some ''__proto__''\<rparr>))
       ''__proto__''
     = Some (ProtoObject \<lparr>p_id = Some ''7'', p_Sku = Some ''__proto__''\<rparr>) \<and>
   dictGet productProps (JsDict [] None) ''constructor'' = Some (Builtin ''constructor'') \<and>
   dictGet productProps (JsDict [] None) ''__proto__'' = Some (Builtin ''__proto__'') \<and>
   dictGet productProps (JsDict [] None) ''widget'' = None"
  by code_simp

lemma resolveSku_matchType_cases:
  "matchType (resolveSku rt rawSku productMap bundleMap clientSkuMap) = None \<or>
   matchType (resolveSku rt rawSku productMap bundleMap clientSkuMap) = Some ''bundle'' \<or>
   matchType (resolveSku rt rawSku productMap bundleMap clientSkuMap) = Some ''product''"
  by (simp add: resolveSku_def Let_def)

text \<open>
  C4. \<^verbatim>\<open>resolveSku\<close> answers with match type \<open>bundle\<close>, \<open>product\<close> or \<open>null\<close> only. The
  client SKU map that \<^verbatim>\<open>runOnce\<close> passes as a fourth argument is not a parameter of the
  function: the result is the same with any client map, the property \<open>client\<close> is never
  set, and no input resolves to \<open>client_product\<close>, also not a SKU that the client map
  registers.
\<close>

theorem resolveSku_never_client_product:
  "matchType (resolveSku rt rawSku productMap bundleMap clientSkuMap) \<noteq> Some ''client_product'' \<and>
   res_client (resolveSku rt rawSku productMap bundleMap clientSkuMap) = None \<and>
   resolveSku rt rawSku productMap bundleMap clientSkuMap
     = resolveSku rt rawSku productMap bundleMap (JsDict [] None) \<and>
   resolveSku asciiText (Some ''abc'') (JsDict [] None) (JsDict [] None)
       (JsDict [(''abc'', \<lparr>ci_id = Some ''7'', ci_sku = Some ''ABC'', ci_client_id = Some ''c1''\<rparr>)]
          None)
     = \<lparr>baseSku = ''abc'', matchType = None, res_bundle = None, res_product = None,
        res_client = None\<rparr>"
proof -
  have "resolveSku asciiText (Some ''abc'') (JsDict [] None) (JsDict [] None)
       (JsDict [(''abc'', \<lparr>ci_id = Some ''7'', ci_sku = Some ''ABC'', ci_client_id = Some ''c1''\<rparr>)]
          None)
     = \<lparr>baseSku = ''abc'', matchType = None, res_bundle = None, res_product = None,
        res_client = None\<rparr>"
    by code_simp
  moreover have "matchType (resolveSku rt rawSku productMap bundleMap clientSkuMap) \<noteq> Some ''client_product''"
    using resolveSku_matchType_cases [of rt rawSku productMap bundleMap clientSkuMap] by auto
  moreover have "res_client (resolveSku rt rawSku productMap bundleMap clientSkuMap) = None"
    by (simp add: resolveSku_def Let_def)
  moreover have "resolveSku rt rawSku productMap bundleMap clientSkuMap
      = resolveSku rt rawSku productMap bundleMap (JsDict [] None)"
    by (simp add: resolveSku_def)
  ultimately show ?thesis by blast
qed

text \<open>
  C5, as the code has it. Provided no registered bundle or product key is the empty
  string, and the normalized SKU is not matched by a property that a catalog object
  inherits without registering it, every raw SKU (missing and empty ones included)
  resolves in this order: the normalized SKU itself when it is a bundle key; else itself
  when it is a product key; else the longest bundle key that is a prefix of it, whatever
  product keys are prefixes too; else the longest product key that is a prefix; else its
  first segment before \<open>-\<close>, \<open>_\<close> or \<open>.\<close>, with match type \<open>null\<close>. The entity returned is
  the entry the map registers at the base SKU. This holds for any lower-casing and any
  white space class, given that lower-casing the empty text gives the empty text.
\<close>

theorem resolveSku_resolution_order:
  assumes "toLowerCase rt [] = []"
    and "[] \<notin> set (dictKeys bundleMap)" and "[] \<notin> set (dictKeys productMap)"
    and "notInherited bundleProps bundleMap (normalizeSku rt rawSku)"
    and "notInherited productProps productMap (normalizeSku rt rawSku)"
  shows
   "(normalizeSku rt rawSku \<in> set (dictKeys bundleMap) \<longrightarrow>
       baseSku (resolveSku rt rawSku productMap bundleMap cm) = normalizeSku rt rawSku \<and>
       matchType (resolveSku rt rawSku productMap bundleMap cm) = Some ''bundle'' \<and>
       res_bundle (resolveSku rt rawSku productMap bundleMap cm) = registered bundleMap (normalizeSku rt rawSku)) \<and>
    (normalizeSku rt rawSku \<notin> set (dictKeys bundleMap) \<and> normalizeSku rt rawSku \<in> set (dictKeys productMap) \<longrightarrow>
       baseSku (resolveSku rt rawSku productMap bundleMap cm) = normalizeSku rt rawSku \<and>
       matchType (resolveSku rt rawSku productMap bundleMap cm) = Some ''product'' \<and>
       res_product (resolveSku rt rawSku productMap bundleMap cm) = registered productMap (normalizeSku rt rawSku)) \<and>
    (normalizeSku rt rawSku \<notin> set (dictKeys bundleMap) \<and> normalizeSku rt rawSku \<notin> set (dictKeys productMap) \<and>
     (\<exists>k \<in> set (dictKeys bundleMap). prefix k (normalizeSku rt rawSku)) \<longrightarrow>
       matchType (resolveSku rt rawSku productMap bundleMap cm) = Some ''bundle'' \<and>
       longest_prefix_key (dictKeys bundleMap) (normalizeSku rt rawSku) (baseSku (resolveSku rt rawSku productMap bundleMap cm)) \<and>
       res_bundle (resolveSku rt rawSku productMap bundleMap cm) = registered bundleMap (baseSku (resolveSku rt rawSku productMap bundleMap cm))) \<and>
    (normalizeSku rt rawSku \<notin> set (dictKeys bundleMap) \<and> normalizeSku rt rawSku \<notin> set (dictKeys productMap) \<and>
     (\<forall>k \<in> set (dictKeys bundleMap). \<not> prefix k (normalizeSku rt rawSku)) \<and>
     (\<exists>k \<in> set (dictKeys productMap). prefix k (normalizeSku rt rawSku)) \<longrightarrow>
       matchType (resolveSku rt rawSku productMap bundleMap cm) = Some ''product'' \<and>
       longest_prefix_key (dictKeys productMap) (normalizeSku rt rawSku) (baseSku (resolveSku rt rawSku productMap bundleMap cm)) \<and>
       res_product (resolveSku rt rawSku productMap bundleMap cm) = registered productMap (baseSku (resolveSku rt rawSku productMap bundleMap cm))) \<and>
    (normalizeSku rt rawSku \<notin> set (dictKeys bundleMap) \<and> normalizeSku rt rawSku \<notin> set (dictKeys productMap) \<and>
     (\<forall>k \<in> set (dictKeys bundleMap). \<not> prefix k (normalizeSku rt rawSku)) \<and>
     (\<forall>k \<in> set (dictKeys productMap). \<not> prefix k (normalizeSku rt rawSku)) \<longrightarrow>
       baseSku (resolveSku rt rawSku productMap bundleMap cm) = firstSegment (normalizeSku rt rawSku) \<and>
       matchType (resolveSku rt rawSku productMap bundleMap cm) = None)"
proof (cases "truthy rawSku")
  case False
  with assms(1) have n: "normalizeSku rt rawSku = []"
    by (rule normalizeSku_falsy)
  from False have r: "resolveSku rt rawSku productMap bundleMap cm =
      \<lparr>baseSku = [], matchType = None, res_bundle = None, res_product = None, res_client = None\<rparr>"
    by (simp add: resolveSku_def)
  from assms(2,3) have "\<not> (\<exists>k \<in> set (dictKeys bundleMap). prefix k [])"
    and "\<not> (\<exists>k \<in> set (dictKeys productMap). prefix k [])"
    by auto
  with assms(2,3) show ?thesis
    unfolding n r by (simp add: firstSegment_def)
next
  case True
  let ?n = "normalizeSku rt rawSku"
  let ?r = "resolveSku rt rawSku productMap bundleMap cm"
  have miss_b: "?n \<notin> set (dictKeys bundleMap) \<Longrightarrow> \<not> memberTruthy (dictGet bundleProps bundleMap ?n)"
    using assms(4) by (simp add: notInherited_def dictGet_unregistered)
  have miss_p: "?n \<notin> set (dictKeys productMap) \<Longrightarrow> \<not> memberTruthy (dictGet productProps productMap ?n)"
    using assms(5) by (simp add: notInherited_def dictGet_unregistered)
  have exact_b: "?n \<in> set (dictKeys bundleMap) \<Longrightarrow>
      baseSku ?r = ?n \<and> matchType ?r = Some ''bundle'' \<and> res_bundle ?r = registered bundleMap ?n"
  proof -
    assume "?n \<in> set (dictKeys bundleMap)"
    note g = dictGet_registered [OF this, of bundleProps]
    from conjunct2 [OF g] True
    have "baseSku ?r = ?n \<and> matchType ?r = Some ''bundle'' \<and>
          res_bundle ?r = dictGet bundleProps bundleMap ?n"
      by (simp add: resolveSku_def Let_def)
    then show ?thesis
      by (simp only: conjunct1 [OF g])
  qed
  have exact_p: "?n \<notin> set (dictKeys bundleMap) \<Longrightarrow> ?n \<in> set (dictKeys productMap) \<Longrightarrow>
      baseSku ?r = ?n \<and> matchType ?r = Some ''product'' \<and> res_product ?r = registered productMap ?n"
  proof -
    assume nb: "?n \<notin> set (dictKeys bundleMap)" and "?n \<in> set (dictKeys productMap)"
    note g = dictGet_registered [OF this(2), of productProps]
    from conjunct2 [OF g] miss_b [OF nb] True
    have "baseSku ?r = ?n \<and> matchType ?r = Some ''product'' \<and>
          res_product ?r = dictGet productProps productMap ?n"
      by (simp add: resolveSku_def Let_def)
    then show ?thesis
      by (simp only: conjunct1 [OF g])
  qed
  have no_exact: "?n \<notin> set (dictKeys bundleMap) \<Longrightarrow> ?n \<notin> set (dictKeys productMap) \<Longrightarrow>
      ?r = (let bestBundleKey = foldl (tryPrefix ?n) [] (dictKeys bundleMap);
                bestProductKey = foldl (tryPrefix ?n) [] (dictKeys productMap)
            in if bestBundleKey \<noteq> []
               then \<lparr>baseSku = bestBundleKey, matchType = Some ''bundle'',
                     res_bundle = dictGet bundleProps bundleMap bestBundleKey, res_product = None,
                     res_client = None\<rparr>
               else if bestProductKey \<noteq> []
               then \<lparr>baseSku = bestProductKey, matchType = Some ''product'',
                     res_bundle = None,
                     res_product = dictGet productProps productMap bestProductKey,
                     res_client = None\<rparr>
               else \<lparr>baseSku = firstSegment ?n, matchType = None, res_bundle = None,
                     res_product = None, res_client = None\<rparr>)"
  proof -
    assume a: "?n \<notin> set (dictKeys bundleMap)" and b: "?n \<notin> set (dictKeys productMap)"
    from miss_b [OF a] miss_p [OF b] True show ?thesis
      by (simp add: resolveSku_def Let_def)
  qed
  have pre_b: "?n \<notin> set (dictKeys bundleMap) \<Longrightarrow> ?n \<notin> set (dictKeys productMap) \<Longrightarrow>
      \<exists>k \<in> set (dictKeys bundleMap). prefix k ?n \<Longrightarrow>
      matchType ?r = Some ''bundle'' \<and> longest_prefix_key (dictKeys bundleMap) ?n (baseSku ?r) \<and>
      res_bundle ?r = registered bundleMap (baseSku ?r)"
  proof -
    assume a: "?n \<notin> set (dictKeys bundleMap)" "?n \<notin> set (dictKeys productMap)"
      and "\<exists>k \<in> set (dictKeys bundleMap). prefix k ?n"
    then obtain k where k: "k \<in> set (dictKeys bundleMap)" "prefix k ?n" by blast
    with assms(2) have "k \<noteq> []" by metis
    from best_prefix_found [OF k this]
    have f: "foldl (tryPrefix ?n) [] (dictKeys bundleMap) \<noteq> []"
      and l: "longest_prefix_key (dictKeys bundleMap) ?n (foldl (tryPrefix ?n) [] (dictKeys bundleMap))"
      by simp_all
    from l have "foldl (tryPrefix ?n) [] (dictKeys bundleMap) \<in> set (dictKeys bundleMap)"
      by (simp add: longest_prefix_key_def)
    note g = dictGet_registered [OF this, of bundleProps]
    from f l no_exact [OF a]
    have "matchType ?r = Some ''bundle'' \<and> longest_prefix_key (dictKeys bundleMap) ?n (baseSku ?r) \<and>
      res_bundle ?r = dictGet bundleProps bundleMap (baseSku ?r)"
      by (simp add: Let_def)
    moreover from f no_exact [OF a]
    have "baseSku ?r = foldl (tryPrefix ?n) [] (dictKeys bundleMap)"
      by (simp add: Let_def)
    ultimately show ?thesis
      by (simp only: conjunct1 [OF g])
  qed
  have pre_p: "?n \<notin> set (dictKeys bundleMap) \<Longrightarrow> ?n \<notin> set (dictKeys productMap) \<Longrightarrow>
      \<forall>k \<in> set (dictKeys bundleMap). \<not> prefix k ?n \<Longrightarrow>
      \<exists>k \<in> set (dictKeys productMap). prefix k ?n \<Longrightarrow>
      matchType ?r = Some ''product'' \<and> longest_prefix_key (dictKeys productMap) ?n (baseSku ?r) \<and>
      res_product ?r = registered productMap (baseSku ?r)"
  proof -
    assume a: "?n \<notin> set (dictKeys bundleMap)" "?n \<notin> set (dictKeys productMap)"
      and nb: "\<forall>k \<in> set (dictKeys bundleMap). \<not> prefix k ?n"
      and "\<exists>k \<in> set (dictKeys productMap). prefix k ?n"
    then obtain k where k: "k \<in> set (dictKeys productMap)" "prefix k ?n" by blast
    with assms(3) have "k \<noteq> []" by metis
    from best_prefix_found [OF k this]
    have f: "foldl (tryPrefix ?n) [] (dictKeys productMap) \<noteq> []"
      and l: "longest_prefix_key (dictKeys productMap) ?n (foldl (tryPrefix ?n) [] (dictKeys productMap))"
      by simp_all
    from l have "foldl (tryPrefix ?n) [] (dictKeys productMap) \<in> set (dictKeys productMap)"
      by (simp add: longest_prefix_key_def)
    note g = dictGet_registered [OF this, of productProps]
    from f l best_prefix_none [OF nb] no_exact [OF a]
    have "matchType ?r = Some ''product'' \<and> longest_prefix_key (dictKeys productMap) ?n (baseSku ?r) \<and>
      res_product ?r = dictGet productProps productMap (baseSku ?r)"
      by (simp add: Let_def)
    moreover from f best_prefix_none [OF nb] no_exact [OF a]
    have "baseSku ?r = foldl (tryPrefix ?n) [] (dictKeys productMap)"
      by (simp add: Let_def)
    ultimately show ?thesis
      by (simp only: conjunct1 [OF g])
  qed
  have fallback: "?n \<notin> set (dictKeys bundleMap) \<Longrightarrow> ?n \<notin> set (dictKeys productMap) \<Longrightarrow>
      \<forall>k \<in> set (dictKeys bundleMap). \<not> prefix k ?n \<Longrightarrow>
      \<forall>k \<in> set (dictKeys productMap). \<not> prefix k ?n \<Longrightarrow>
      baseSku ?r = firstSegment ?n \<and> matchType ?r = None"
  proof -
    assume a: "?n \<notin> set (dictKeys bundleMap)" "?n \<notin> set (dictKeys productMap)"
      and nb: "\<forall>k \<in> set (dictKeys bundleMap). \<not> prefix k ?n"
      and np: "\<forall>k \<in> set (dictKeys productMap). \<not> prefix k ?n"
    from best_prefix_none [OF nb] best_prefix_none [OF np] no_exact [OF a] show ?thesis
      by (simp add: Let_def)
  qed
  from exact_b exact_p pre_b pre_p fallback show ?thesis
    by blast
qed

theorem resolveSku_resolution_order_witness:
  "baseSku (resolveSku asciiText (Some ''ZZ-001'')
      (JsDict [(''bundle'', \<lparr>p_id = Some ''p1'', p_Sku = Some ''Bundle''\<rparr>)] None)
      (JsDict [(''bun'', \<lparr>b_id = Some ''b1'', b_name = Some ''Bun''\<rparr>)] None) (JsDict [] None)) = ''zz'' \<and>
   matchType (resolveSku asciiText (Some ''ZZ-001'')
      (JsDict [(''bundle'', \<lparr>p_id = Some ''p1'', p_Sku = Some ''Bundle''\<rparr>)] None)
      (JsDict [(''bun'', \<lparr>b_id = Some ''b1'', b_name = Some ''Bun''\<rparr>)] None) (JsDict [] None)) = None \<and>
   baseSku (resolveSku asciiText (Some ''Bundle 123'')
      (JsDict [(''bundle'', \<lparr>p_id = Some ''p1'', p_Sku = Some ''Bundle''\<rparr>)] None)
      (JsDict [(''bun'', \<lparr>b_id = Some ''b1'', b_name = Some ''Bun''\<rparr>)] None) (JsDict [] None)) = ''bun'' \<and>
   matchType (resolveSku asciiText (Some ''Bundle 123'')
      (JsDict [(''bundle'', \<lparr>p_id = Some ''p1'', p_Sku = Some ''Bundle''\<rparr>)] None)
      (JsDict [(''bun'', \<lparr>b_id = Some ''b1'', b_name = Some ''Bun''\<rparr>)] None) (JsDict [] None))
     = Some ''bundle''"
proof -
  let ?pm = "JsDict [(''bundle'', \<lparr>p_id = Some ''p1'', p_Sku = Some ''Bundle''\<rparr>)] None"
  let ?bm = "JsDict [(''bun'', \<lparr>b_id = Some ''b1'', b_name = Some ''Bun''\<rparr>)] None"
  have n1: "normalizeSku asciiText (Some ''ZZ-001'') = ''zz-001''"
    by code_simp
  have n2: "normalizeSku asciiText (Some ''Bundle 123'') = ''bundle123''"
    by code_simp
  have kb: "dictKeys ?bm = [''bun'']" and kp: "dictKeys ?pm = [''bundle'']"
    by code_simp+
  have h0: "toLowerCase asciiText [] = []"
    by (simp add: asciiText_def)
  have h1: "[] \<notin> set (dictKeys ?bm)" and h2: "[] \<notin> set (dictKeys ?pm)"
    by (simp_all add: kb kp)
  have i1: "notInherited bundleProps ?bm (normalizeSku asciiText (Some ''ZZ-001''))"
    and i2: "notInherited productProps ?pm (normalizeSku asciiText (Some ''ZZ-001''))"
    and i3: "notInherited bundleProps ?bm (normalizeSku asciiText (Some ''Bundle 123''))"
    and i4: "notInherited productProps ?pm (normalizeSku asciiText (Some ''Bundle 123''))"
    by code_simp+
  from resolveSku_resolution_order [OF h0 h1 h2 i1 i2, of "JsDict [] None"]
  have a: "baseSku (resolveSku asciiText (Some ''ZZ-001'') ?pm ?bm (JsDict [] None)) = ''zz'' \<and>
           matchType (resolveSku asciiText (Some ''ZZ-001'') ?pm ?bm (JsDict [] None)) = None"
    by (simp add: n1 kb kp firstSegment_def)
  from resolveSku_resolution_order [OF h0 h1 h2 i3 i4, of "JsDict [] None"]
  have b: "baseSku (resolveSku asciiText (Some ''Bundle 123'') ?pm ?bm (JsDict [] None)) = ''bun'' \<and>
           matchType (resolveSku asciiText (Some ''Bundle 123'') ?pm ?bm (JsDict [] None)) = Some ''bundle''"
    by (simp add: n2 kb kp longest_prefix_key_def)
  from a b show ?thesis by blast
qed

text \<open>
  The order as C5 words it, for every raw SKU, fails in two places. Where the catalog
  registers the empty string as a key (a bundle whose name is a blank), an empty raw SKU
  returns before any lookup although the empty key is an exact bundle match, and the
  empty bundle key, a prefix of every SKU, is never a prefix match. And \<^verbatim>\<open>bundleMap[norm]\<close>
  reads the prototype too: with empty catalogs, no key registered at all, the SKU
  \<open>Constructor\<close> is answered as an exact bundle match, the bundle being the function
  \<^verbatim>\<open>Object\<close>, where the order says base SKU \<open>constructor\<close> with match type \<open>null\<close>.
\<close>

theorem resolveSku_order_counterexample:
  "snd (buildSkuMaps asciiText [] [\<lparr>b_id = Some ''b1'', b_name = Some '' ''\<rparr>])
     = JsDict [([], \<lparr>b_id = Some ''b1'', b_name = Some '' ''\<rparr>)] None \<and>
   registered (JsDict [([], \<lparr>b_id = Some ''b1'', b_name = Some '' ''\<rparr>)] None)
       (normalizeSku asciiText (Some []))
     = Some (OwnEntry \<lparr>b_id = Some ''b1'', b_name = Some '' ''\<rparr>) \<and>
   matchType (resolveSku asciiText (Some []) (JsDict [] None)
       (JsDict [([], \<lparr>b_id = Some ''b1'', b_name = Some '' ''\<rparr>)] None) (JsDict [] None))
     = None \<and>
   prefix [] (normalizeSku asciiText (Some ''abc'')) \<and>
   matchType (resolveSku asciiText (Some ''abc'') (JsDict [] None)
       (JsDict [([], \<lparr>b_id = Some ''b1'', b_name = Some '' ''\<rparr>)] None) (JsDict [] None))
     = None \<and>
   dictKeys (JsDict [] None :: bundle_row jsdict) = [] \<and>
   firstSegment (normalizeSku asciiText (Some ''Constructor'')) = ''constructor'' \<and>
   resolveSku asciiText (Some ''Constructor'') (JsDict [] None) (JsDict [] None) (JsDict [] None)
     = \<lparr>baseSku = ''constructor'', matchType = Some ''bundle'',
        res_bundle = Some (Builtin ''constructor''), res_product = None, res_client = None\<rparr>"
  by code_simp
section \<open>Properties of the alert manager\<close>

lemma clearAlerts_length: "length (clearAlerts now sku cid alerts) = length alerts"
  by (simp add: clearAlerts_def)

lemma clearAlerts_none_left:
  assumes "a \<in> set (clearAlerts now sku cid alerts)"
  shows "\<not> clearFilter sku cid a"
proof -
  from assms have
    "a \<in> (\<lambda>b. if clearFilter sku cid b then b\<lparr>al_is_active := False, al_updated_at := now\<rparr> else b)
       ` set alerts"
    by (simp add: clearAlerts_def)
  then obtain b where
    a: "a = (if clearFilter sku cid b then b\<lparr>al_is_active := False, al_updated_at := now\<rparr> else b)"
    by (rule imageE)
  show ?thesis
    by (cases "clearFilter sku cid b") (simp_all add: a clearFilter_def)
qed

lemma clearAlerts_nth:
  "i < length alerts \<Longrightarrow>
   clearAlerts now sku cid alerts ! i =
     (if clearFilter sku cid (alerts ! i)
      then (alerts ! i)\<lparr>al_is_active := False, al_updated_at := now\<rparr> else alerts ! i)"
  by (simp add: clearAlerts_def)

text \<open>
  The decision of the alert loop, and what the clearing update does when there is no
  alert: the table keeps its rows, the rows that pass the update's filters are set to
  \<open>is_active = false\<close>, every other row is as it was.
\<close>

lemma alertDecision_cases:
  "(qtyNeeded > totalQty \<longrightarrow>
      alertDecision qtyNeeded pickAvailable backQty totalQty = Some (''purchase'', ''high'')) \<and>
   (\<not> qtyNeeded > totalQty \<and> qtyNeeded > pickAvailable \<and> backQty > 0 \<longrightarrow>
      alertDecision qtyNeeded pickAvailable backQty totalQty = Some (''restock'', ''medium'')) \<and>
   (\<not> qtyNeeded > totalQty \<and> \<not> (qtyNeeded > pickAvailable \<and> backQty > 0) \<longrightarrow>
      alertDecision qtyNeeded pickAvailable backQty totalQty = None)"
  by (auto simp: alertDecision_def)

lemma alertBody_clears:
  assumes "alertDecision qtyNeeded (pk_available pick) backQty totalQty = None"
  shows "alertBody native now sku qtyNeeded pick backQty totalQty alerts
           = clearAlerts now sku (orNull (pk_client_id pick)) alerts"
  using assms by (simp add: alertBody_def)

lemma clearAlerts_without_client:
  "clearAlerts now sku None alerts =
     map (\<lambda>a. if al_item_type a = ''client_product'' \<and> al_message a = sku \<and>
                  al_client_id a = Some ''null'' \<and> al_is_active a
               then a\<lparr>al_is_active := False, al_updated_at := now\<rparr> else a) alerts"
  by (simp add: clearAlerts_def clearFilter_def eqFilter_def)

text \<open>
  With a client on the pick entry the clearing update finds the active alert of the SKU
  and the client: a demand of 10 against 20 pickable deactivates it.
\<close>

lemma alert_with_client_is_cleared:
  "alertBody True ''t1'' ''sku-a'' 10 \<lparr>pk_available = 20, pk_client_id = Some ''c1''\<rparr> 50 200
     [\<lparr>al_id = 1, al_client_id = Some ''c1'', al_item_type = ''client_product'',
       al_item_id = None, al_alert_type = ''restock'', al_message = ''sku-a'',
       al_severity = ''medium'', al_is_active = True, al_updated_at = ''t0''\<rparr>]
   = [\<lparr>al_id = 1, al_client_id = Some ''c1'', al_item_type = ''client_product'',
       al_item_id = None, al_alert_type = ''restock'', al_message = ''sku-a'',
       al_severity = ''medium'', al_is_active = False, al_updated_at = ''t1''\<rparr>]"
  by (simp add: alertDecision_def alertBody_def orNull_def truthy_def clearAlerts_def
      clearFilter_def eqFilter_def)

text \<open>
  C6. The decision is as the claim says: \<open>purchase\<close> and \<open>high\<close> for a demand above the
  total, \<open>restock\<close> and \<open>medium\<close> for a demand above the pickable availability with
  backstock, else no alert. The deactivation is not, for a SKU without a client. The SKU
  \<open>sku-a\<close> has a demand of 10 and no pickable row, so the loop takes the default
  \<^verbatim>\<open>{ available: 0, client_id: null }\<close>. While there is no stock, the run raises a
  \<open>purchase\<close> alert, stored with a NULL \<^verbatim>\<open>client_id\<close> (by the upsert, or by the insert of
  the fallback where the store has no unique index). Once 200 are on hand at a
  production location, the decision is no alert, and the clearing update, filtered by
  \<^verbatim>\<open>.eq('client_id', null)\<close>, leaves the table as it was: the alert of that SKU, client
  and type is still active.
\<close>

theorem alert_without_client_stays_active:
  "alertDecision 100 20 0 50 = Some (''purchase'', ''high'') \<and>
   alertDecision 100 20 50 200 = Some (''restock'', ''medium'') \<and>
   alertDecision 10 20 50 200 = None \<and>
   alertStep True ''t0'' Map.empty Map.empty Map.empty [] (''sku-a'', 10)
     = [\<lparr>al_id = 1, al_client_id = None, al_item_type = ''client_product'', al_item_id = None,
         al_alert_type = ''purchase'', al_message = ''sku-a'', al_severity = ''high'',
         al_is_active = True, al_updated_at = ''t0''\<rparr>] \<and>
   alertStep False ''t0'' Map.empty Map.empty Map.empty [] (''sku-a'', 10)
     = [\<lparr>al_id = 1, al_client_id = None, al_item_type = ''client_product'', al_item_id = None,
         al_alert_type = ''purchase'', al_message = ''sku-a'', al_severity = ''high'',
         al_is_active = True, al_updated_at = ''t0''\<rparr>] \<and>
   alertDecision 10 0 0 200 = None \<and>
   alertStep True ''t1'' Map.empty Map.empty [''sku-a'' \<mapsto> 200]
       [\<lparr>al_id = 1, al_client_id = None, al_item_type = ''client_product'', al_item_id = None,
         al_alert_type = ''purchase'', al_message = ''sku-a'', al_severity = ''high'',
         al_is_active = True, al_updated_at = ''t0''\<rparr>] (''sku-a'', 10)
     = [\<lparr>al_id = 1, al_client_id = None, al_item_type = ''client_product'', al_item_id = None,
         al_alert_type = ''purchase'', al_message = ''sku-a'', al_severity = ''high'',
         al_is_active = True, al_updated_at = ''t0''\<rparr>]"
  by (simp add: alertDecision_def alertStep_def alertBody_def orZero_def orNull_def truthy_def
      upsertAlert_def sameKey_def insertAlert_def freshId_def clearAlerts_def clearFilter_def
      eqFilter_def)
section \<open>Termination of the paginated loops\<close>

text \<open>
  A record is well paged from page \<open>p\<close> on when it has at most \<open>MAX_PAGES - p\<close> entries and
  every entry but the last is a full page.
\<close>

lemma pagedLoop_log:
  "\<exists>new. snd (pagedLoop MAX_PAGES PAGE_SIZE fetch work page st iters) = iters @ new \<and>
         int (length new) \<le> max 0 (MAX_PAGES - page) \<and>
         (\<forall>i. Suc i < length new \<longrightarrow> (\<exists>n. new ! i = Some n \<and> PAGE_SIZE \<le> int n \<and> 0 < n)) \<and>
         ((\<forall>e \<in> set new. \<exists>n. e = Some n \<and> PAGE_SIZE \<le> int n \<and> 0 < n) \<longrightarrow>
            int (length new) = max 0 (MAX_PAGES - page))"
proof (induction MAX_PAGES PAGE_SIZE fetch work page st iters rule: pagedLoop.induct)
  case (1 MAX_PAGES PAGE_SIZE fetch work page st iters)
  show ?case
  proof (cases "page < MAX_PAGES")
    case False
    then show ?thesis by (simp add: exI [of _ "[]"])
  next
    case True
    note lt = True
    show ?thesis
    proof (cases "fetch st (page * PAGE_SIZE) (page * PAGE_SIZE + PAGE_SIZE - 1)")
      case None
      with lt have "snd (pagedLoop MAX_PAGES PAGE_SIZE fetch work page st iters) = iters @ [None]"
        by simp
      with lt show ?thesis by (intro exI [of _ "[None]"]) simp
    next
      case (Some rows)
      show ?thesis
      proof (cases "rows = []")
        case True
        with lt Some have "snd (pagedLoop MAX_PAGES PAGE_SIZE fetch work page st iters) = iters @ [Some 0]"
          by simp
        with lt show ?thesis by (intro exI [of _ "[Some 0]"]) simp
      next
        case False
        note ne = False
        show ?thesis
        proof (cases "int (length rows) < PAGE_SIZE")
          case True
          with lt Some ne
          have "snd (pagedLoop MAX_PAGES PAGE_SIZE fetch work page st iters) = iters @ [Some (length rows)]"
            by simp
          with lt True show ?thesis by (intro exI [of _ "[Some (length rows)]"]) simp
        next
          case False
          from "1.IH" [OF lt Some ne False]
          obtain new where
            n1: "snd (pagedLoop MAX_PAGES PAGE_SIZE fetch work (page + 1) (work st rows)
                   (iters @ [Some (length rows)])) = (iters @ [Some (length rows)]) @ new"
            and n2: "int (length new) \<le> max 0 (MAX_PAGES - (page + 1))"
            and n3: "\<forall>i. Suc i < length new \<longrightarrow> (\<exists>n. new ! i = Some n \<and> PAGE_SIZE \<le> int n \<and> 0 < n)"
            and n4: "(\<forall>e \<in> set new. \<exists>n. e = Some n \<and> PAGE_SIZE \<le> int n \<and> 0 < n) \<longrightarrow>
                       int (length new) = max 0 (MAX_PAGES - (page + 1))"
            by blast
          let ?new = "Some (length rows) # new"
          from lt Some ne False n1
          have a: "snd (pagedLoop MAX_PAGES PAGE_SIZE fetch work page st iters) = iters @ ?new"
            by simp
          from n2 lt have b: "int (length ?new) \<le> max 0 (MAX_PAGES - page)"
            by simp
          have c: "\<forall>i. Suc i < length ?new \<longrightarrow> (\<exists>n. ?new ! i = Some n \<and> PAGE_SIZE \<le> int n \<and> 0 < n)"
          proof (intro allI impI)
            fix i assume i: "Suc i < length ?new"
            show "\<exists>n. ?new ! i = Some n \<and> PAGE_SIZE \<le> int n \<and> 0 < n"
            proof (cases i)
              case 0
              with False ne show ?thesis by simp
            next
              case (Suc j)
              with i n3 show ?thesis by simp
            qed
          qed
          from n4 lt have d: "(\<forall>e \<in> set ?new. \<exists>n. e = Some n \<and> PAGE_SIZE \<le> int n \<and> 0 < n) \<longrightarrow>
                       int (length ?new) = max 0 (MAX_PAGES - page)"
            by simp
          from a b c d show ?thesis by blast
        qed
      qed
    qed
  qed
qed

lemma reconLoop_log:
  "\<exists>new. snd (reconLoop MAX_PAGES PAGE_SIZE fetch perShipment page st iters) = iters @ new \<and>
         int (length new) \<le> max 0 (MAX_PAGES - page) \<and>
         (\<forall>i. Suc i < length new \<longrightarrow> (\<exists>n. new ! i = Some n \<and> PAGE_SIZE \<le> int n \<and> 0 < n)) \<and>
         ((\<forall>e \<in> set new. \<exists>n. e = Some n \<and> PAGE_SIZE \<le> int n \<and> 0 < n) \<longrightarrow>
            int (length new) = max 0 (MAX_PAGES - page))"
proof (induction MAX_PAGES PAGE_SIZE fetch perShipment page st iters rule: reconLoop.induct)
  case (1 MAX_PAGES PAGE_SIZE fetch perShipment page st iters)
  show ?case
  proof (cases "page < MAX_PAGES")
    case False
    then show ?thesis by (simp add: exI [of _ "[]"])
  next
    case True
    note lt = True
    show ?thesis
    proof (cases "fetch (page * PAGE_SIZE) (page * PAGE_SIZE + PAGE_SIZE - 1)")
      case None
      with lt have "snd (reconLoop MAX_PAGES PAGE_SIZE fetch perShipment page st iters) = iters @ [None]"
        by simp
      with lt show ?thesis by (intro exI [of _ "[None]"]) simp
    next
      case (Some rows)
      show ?thesis
      proof (cases "rows = []")
        case True
        with lt Some have "snd (reconLoop MAX_PAGES PAGE_SIZE fetch perShipment page st iters) = iters @ [Some 0]"
          by simp
        with lt show ?thesis by (intro exI [of _ "[Some 0]"]) simp
      next
        case False
        note ne = False
        show ?thesis
        proof (cases "int (length rows) < PAGE_SIZE")
          case True
          with lt Some ne
          have "snd (reconLoop MAX_PAGES PAGE_SIZE fetch perShipment page st iters) = iters @ [Some (length rows)]"
            by simp
          with lt True show ?thesis by (intro exI [of _ "[Some (length rows)]"]) simp
        next
          case False
          from "1.IH" [OF lt Some ne False]
          obtain new where
            n1: "snd (reconLoop MAX_PAGES PAGE_SIZE fetch perShipment (page + 1)
                   (foldl perShipment st rows) (iters @ [Some (length rows)]))
                 = (iters @ [Some (length rows)]) @ new"
            and n2: "int (length new) \<le> max 0 (MAX_PAGES - (page + 1))"
            and n3: "\<forall>i. Suc i < length new \<longrightarrow> (\<exists>n. new ! i = Some n \<and> PAGE_SIZE \<le> int n \<and> 0 < n)"
            and n4: "(\<forall>e \<in> set new. \<exists>n. e = Some n \<and> PAGE_SIZE \<le> int n \<and> 0 < n) \<longrightarrow>
                       int (length new) = max 0 (MAX_PAGES - (page + 1))"
            by blast
          let ?new = "Some (length rows) # new"
          from lt Some ne False n1
          have a: "snd (reconLoop MAX_PAGES PAGE_SIZE fetch perShipment page st iters) = iters @ ?new"
            by simp
          from n2 lt have b: "int (length ?new) \<le> max 0 (MAX_PAGES - page)"
            by simp
          have c: "\<forall>i. Suc i < length ?new \<longrightarrow> (\<exists>n. ?new ! i = Some n \<and> PAGE_SIZE \<le> int n \<and> 0 < n)"
          proof (intro allI impI)
            fix i assume i: "Suc i < length ?new"
            show "\<exists>n. ?new ! i = Some n \<and> PAGE_SIZE \<le> int n \<and> 0 < n"
            proof (cases i)
              case 0
              with False ne show ?thesis by simp
            next
              case (Suc j)
              with i n3 show ?thesis by simp
            qed
          qed
          from n4 lt have d: "(\<forall>e \<in> set ?new. \<exists>n. e = Some n \<and> PAGE_SIZE \<le> int n \<and> 0 < n) \<longrightarrow>
                       int (length ?new) = max 0 (MAX_PAGES - page)"
            by simp
          from a b c d show ?thesis by blast
        qed
      qed
    qed
  qed
qed

text \<open>
  C9. Every paginated loop returns (both are total functions), and from page \<open>0\<close> its
  record of iterations has at most \<open>MAX_PAGES\<close> entries; every iteration but the last
  fetched a full page, so a fetch that fails, is empty or is shorter than the page size
  is the last one; and when every fetch answers a full page the loop stops after exactly
  \<open>MAX_PAGES\<close> iterations. This holds for the loop of the merger and the backfiller
  (\<open>pagedLoop\<close>) and for the loop of the shipment reconciliation (\<open>reconLoop\<close>), whatever
  the queries answer and whatever the page's work does to the store.
\<close>

theorem paginated_loops_terminate:
  "int (length (snd (pagedLoop MAX_PAGES PAGE_SIZE fetch work 0 st []))) \<le> max 0 MAX_PAGES \<and>
   (\<forall>i. Suc i < length (snd (pagedLoop MAX_PAGES PAGE_SIZE fetch work 0 st [])) \<longrightarrow>
        (\<exists>n. snd (pagedLoop MAX_PAGES PAGE_SIZE fetch work 0 st []) ! i = Some n \<and>
             PAGE_SIZE \<le> int n \<and> 0 < n)) \<and>
   ((\<forall>e \<in> set (snd (pagedLoop MAX_PAGES PAGE_SIZE fetch work 0 st [])).
        \<exists>n. e = Some n \<and> PAGE_SIZE \<le> int n \<and> 0 < n) \<longrightarrow>
      int (length (snd (pagedLoop MAX_PAGES PAGE_SIZE fetch work 0 st []))) = max 0 MAX_PAGES) \<and>
   int (length (snd (reconLoop MAX_PAGES PAGE_SIZE fetch' perShipment 0 st' []))) \<le> max 0 MAX_PAGES \<and>
   (\<forall>i. Suc i < length (snd (reconLoop MAX_PAGES PAGE_SIZE fetch' perShipment 0 st' [])) \<longrightarrow>
        (\<exists>n. snd (reconLoop MAX_PAGES PAGE_SIZE fetch' perShipment 0 st' []) ! i = Some n \<and>
             PAGE_SIZE \<le> int n \<and> 0 < n)) \<and>
   ((\<forall>e \<in> set (snd (reconLoop MAX_PAGES PAGE_SIZE fetch' perShipment 0 st' [])).
        \<exists>n. e = Some n \<and> PAGE_SIZE \<le> int n \<and> 0 < n) \<longrightarrow>
      int (length (snd (reconLoop MAX_PAGES PAGE_SIZE fetch' perShipment 0 st' []))) = max 0 MAX_PAGES)"
proof -
  from pagedLoop_log [of MAX_PAGES PAGE_SIZE fetch work 0 st "[]"]
  have p: "int (length (snd (pagedLoop MAX_PAGES PAGE_SIZE fetch work 0 st []))) \<le> max 0 MAX_PAGES \<and>
   (\<forall>i. Suc i < length (snd (pagedLoop MAX_PAGES PAGE_SIZE fetch work 0 st [])) \<longrightarrow>
        (\<exists>n. snd (pagedLoop MAX_PAGES PAGE_SIZE fetch work 0 st []) ! i = Some n \<and>
             PAGE_SIZE \<le> int n \<and> 0 < n)) \<and>
   ((\<forall>e \<in> set (snd (pagedLoop MAX_PAGES PAGE_SIZE fetch work 0 st [])).
        \<exists>n. e = Some n \<and> PAGE_SIZE \<le> int n \<and> 0 < n) \<longrightarrow>
      int (length (snd (pagedLoop MAX_PAGES PAGE_SIZE fetch work 0 st []))) = max 0 MAX_PAGES)"
    by auto
  from reconLoop_log [of MAX_PAGES PAGE_SIZE fetch' perShipment 0 st' "[]"]
  have r: "int (length (snd (reconLoop MAX_PAGES PAGE_SIZE fetch' perShipment 0 st' []))) \<le> max 0 MAX_PAGES \<and>
   (\<forall>i. Suc i < length (snd (reconLoop MAX_PAGES PAGE_SIZE fetch' perShipment 0 st' [])) \<longrightarrow>
        (\<exists>n. snd (reconLoop MAX_PAGES PAGE_SIZE fetch' perShipment 0 st' []) ! i = Some n \<and>
             PAGE_SIZE \<le> int n \<and> 0 < n)) \<and>
   ((\<forall>e \<in> set (snd (reconLoop MAX_PAGES PAGE_SIZE fetch' perShipment 0 st' [])).
        \<exists>n. e = Some n \<and> PAGE_SIZE \<le> int n \<and> 0 < n) \<longrightarrow>
      int (length (snd (reconLoop MAX_PAGES PAGE_SIZE fetch' perShipment 0 st' []))) = max 0 MAX_PAGES)"
    by auto
  have glue: "A \<and> B \<and> C \<Longrightarrow> D \<and> E \<and> F \<Longrightarrow> A \<and> B \<and> C \<and> D \<and> E \<and> F"
    for A B C D E F :: bool
    by blast
  from glue [OF p r] show ?thesis .
qed

theorem paginated_loops_terminate_witness:
  "snd (pagedLoop 3 2 (\<lambda>st a b. Some [a, b]) (\<lambda>st rows. st + length rows) 0 (0::nat) [])
     = [Some 2, Some 2, Some 2] \<and>
   int (length (snd (pagedLoop 3 2 (\<lambda>st a b. Some [a, b]) (\<lambda>st rows. st + length rows) 0 (0::nat) [])))
     \<le> max 0 3 \<and>
   snd (reconLoop 3 2 (\<lambda>a b. if a = 0 then Some [a, b] else Some [a]) (\<lambda>st r. st + nat r) 0 (0::nat) [])
     = [Some 2, Some 1] \<and>
   int (length (snd (reconLoop 3 2 (\<lambda>a b. if a = 0 then Some [a, b] else Some [a])
          (\<lambda>st r. st + nat r) 0 (0::nat) [])))
     \<le> max 0 3"
proof -
  have a: "snd (pagedLoop 3 2 (\<lambda>st a b. Some [a, b]) (\<lambda>st rows. st + length rows) 0 (0::nat) [])
     = [Some 2, Some 2, Some 2]"
    by code_simp
  have b: "snd (reconLoop 3 2 (\<lambda>a b. if a = 0 then Some [a, b] else Some [a])
          (\<lambda>st r. st + nat r) 0 (0::nat) [])
     = [Some 2, Some 1]"
    by code_simp
  from paginated_loops_terminate [where MAX_PAGES = 3 and PAGE_SIZE = 2
      and fetch = "\<lambda>st a b. Some [a, b]" and work = "\<lambda>st rows. st + length rows" and st = "0::nat"
      and fetch' = "\<lambda>a b. if a = 0 then Some [a, b] else Some [a]"
      and perShipment = "\<lambda>st r. st + nat r" and st' = "0::nat"]
  have c: "int (length (snd (pagedLoop 3 2 (\<lambda>st a b. Some [a, b]) (\<lambda>st rows. st + length rows) 0 (0::nat) [])))
     \<le> max 0 3"
    and d: "int (length (snd (reconLoop 3 2 (\<lambda>a b. if a = 0 then Some [a, b] else Some [a])
          (\<lambda>st r. st + nat r) 0 (0::nat) []))) \<le> max 0 3"
    by (rule conjunct1, rule conjunct1 [OF conjunct2 [OF conjunct2 [OF conjunct2]]])
  from a c b d show ?thesis by (intro conjI)
qed

section \<open>Properties of the merger and the backfiller\<close>

lemma getp_Cons: "getp ((k, v) # obj) k' = (if k = k' then v else getp obj k')"
  by (simp add: getp_def)

lemma getp_Nil: "getp [] k = JNull"
  by (simp add: getp_def)

lemma getp_put: "getp (put k v obj) k' = (if k = k' then v else getp obj k')"
  by (induction obj) (auto simp: getp_def)

lemma shipStation_ship_date:
  "getp (makeShipmentRowFromShipStationEvent parseDate evt orderRow) ''ship_date''
     = js_or (toIsoOrNull parseDate (getp evt ''ship_date''))
         (toIsoOrNull parseDate (getp evt ''create_date''))"
  by (simp add: makeShipmentRowFromShipStationEvent_def getp_Cons)

lemma shipEngine_ship_date:
  "getp (makeShipmentRowFromShipEngineEvent parseDate evt orderRow) ''ship_date''
     = js_or (toIsoOrNull parseDate (getp evt ''ship_date''))
         (toIsoOrNull parseDate (getp evt ''create_date''))"
  by (simp add: makeShipmentRowFromShipEngineEvent_def getp_Cons)

text \<open>
  C10. An event carries a tracking number (not blank), its ship date is missing or does
  not parse (\<^verbatim>\<open>toIsoOrNull\<close> answers \<^verbatim>\<open>null\<close>), and its create date parses to the ISO text
  \<open>created\<close> (an ISO text is not empty). Then the candidate of either builder has
  \<open>ship_date = created\<close>, the same as its \<open>create_date\<close>; and in the backfiller both
  event sources answer the hit \<open>(tracking, created)\<close>, from which the order's update sets
  \<open>actual_ship_date = created\<close>.
\<close>

theorem ship_date_defaults_to_create_date:
  assumes "trimmed (getp evt ''tracking_number'') \<noteq> []"
    and "toIsoOrNull parseDate (getp evt ''ship_date'') = JNull"
    and "toIsoOrNull parseDate (getp evt ''create_date'') = JStr created"
    and "created \<noteq> []"
  shows
    "getp (makeShipmentRowFromShipStationEvent parseDate evt orderRow) ''ship_date'' = JStr created \<and>
     getp (makeShipmentRowFromShipStationEvent parseDate evt orderRow) ''create_date'' = JStr created \<and>
     getp (makeShipmentRowFromShipEngineEvent parseDate evt orderRow) ''ship_date'' = JStr created \<and>
     getp (makeShipmentRowFromShipEngineEvent parseDate evt orderRow) ''create_date'' = JStr created \<and>
     findFromShipStation parseDate (Some evt # answers)
       = Some (trimmed (getp evt ''tracking_number''), JStr created) \<and>
     findFromShipEngine parseDate (Some evt)
       = Some (trimmed (getp evt ''tracking_number''), JStr created) \<and>
     getp (buildOrderUpdate (trimmed (getp evt ''tracking_number''), JStr created))
       ''actual_ship_date'' = JStr created"
proof -
  have d: "js_or (toIsoOrNull parseDate (getp evt ''ship_date''))
             (toIsoOrNull parseDate (getp evt ''create_date'')) = JStr created"
    by (simp add: assms(2,3) js_or_def)
  have c1: "getp (makeShipmentRowFromShipStationEvent parseDate evt orderRow) ''create_date''
      = JStr created"
    by (simp add: makeShipmentRowFromShipStationEvent_def getp_Cons assms(3))
  have c2: "getp (makeShipmentRowFromShipEngineEvent parseDate evt orderRow) ''create_date''
      = JStr created"
    by (simp add: makeShipmentRowFromShipEngineEvent_def getp_Cons assms(3))
  have h: "shipStationHit parseDate evt = Some (trimmed (getp evt ''tracking_number''), JStr created)"
    by (simp add: shipStationHit_def d assms(1,4))
  have f1: "findFromShipStation parseDate (Some evt # answers)
       = Some (trimmed (getp evt ''tracking_number''), JStr created)"
    by (simp add: h)
  have f2: "findFromShipEngine parseDate (Some evt)
       = Some (trimmed (getp evt ''tracking_number''), JStr created)"
    by (simp add: findFromShipEngine_def d assms(1))
  have u: "getp (buildOrderUpdate (trimmed (getp evt ''tracking_number''), JStr created))
       ''actual_ship_date'' = JStr created"
    by (simp add: buildOrderUpdate_def Let_def assms(4) getp_put)
  from d c1 c2 f1 f2 u show ?thesis
    by (simp add: shipStation_ship_date shipEngine_ship_date)
qed

theorem ship_date_defaults_to_create_date_witness:
  "getp (makeShipmentRowFromShipStationEvent
          (\<lambda>v. if v = JStr ''2024-01-02T00:00:00Z'' then Some ''2024-01-02T00:00:00.000Z'' else None)
          [(''tracking_number'', JStr '' T1 ''), (''ship_date'', JStr ''soon''),
           (''create_date'', JStr ''2024-01-02'')] None) ''ship_date''
     = JStr ''2024-01-02T00:00:00.000Z'' \<and>
   findFromShipStation
          (\<lambda>v. if v = JStr ''2024-01-02T00:00:00Z'' then Some ''2024-01-02T00:00:00.000Z'' else None)
          [Some [(''tracking_number'', JStr '' T1 ''), (''ship_date'', JStr ''soon''),
                 (''create_date'', JStr ''2024-01-02'')]]
     = Some (''T1'', JStr ''2024-01-02T00:00:00.000Z'')"
proof -
  define pd :: "jsval \<Rightarrow> string option" where
    "pd = (\<lambda>v. if v = JStr ''2024-01-02T00:00:00Z'' then Some ''2024-01-02T00:00:00.000Z'' else None)"
  define evt :: jsobj where
    "evt = [(''tracking_number'', JStr '' T1 ''), (''ship_date'', JStr ''soon''),
            (''create_date'', JStr ''2024-01-02'')]"
  have t: "trimmed (getp evt ''tracking_number'') = ''T1''"
    unfolding evt_def by code_simp
  have h1: "trimmed (getp evt ''tracking_number'') \<noteq> []"
    by (simp add: t)
  have h2: "toIsoOrNull pd (getp evt ''ship_date'') = JNull"
    unfolding evt_def pd_def by code_simp
  have h3: "toIsoOrNull pd (getp evt ''create_date'') = JStr ''2024-01-02T00:00:00.000Z''"
    unfolding evt_def pd_def by code_simp
  have h4: "''2024-01-02T00:00:00.000Z'' \<noteq> []"
    by simp
  from ship_date_defaults_to_create_date [OF h1 h2 h3 h4, of None "[]"]
  show ?thesis
    unfolding t by (simp add: pd_def evt_def)
qed

text \<open>
  C2. What the batched page writes into an existing shipment. The stored row of
  tracking number \<open>T1\<close> has carrier \<open>FedEx\<close>, status \<open>delivered\<close>, cost \<open>999\<close> and
  confirmation \<open>signature\<close>; an event of the same tracking number has carrier \<open>UPS\<close>,
  cost \<open>500\<close> and confirmation \<open>none\<close>. The carrier, a column the lookup selects, is
  kept. Status, cost and confirmation are not among the selected columns, so they read as
  missing on the row the lookup answers, and the update overwrites the stored values.
\<close>

theorem fill_missing_overwrites_unselected_fields:
  "map (\<lambda>r. (getp r ''carrier_code'', getp r ''status'', getp r ''shipment_cost'', getp r ''confirmation''))
     (fst (processShipStationPage (\<lambda>v. None)
        ([[(''id'', JNum 1), (''tracking_number'', JStr ''T1''), (''carrier_code'', JStr ''FedEx''),
           (''status'', JStr ''delivered''), (''shipment_cost'', JNum 999),
           (''confirmation'', JStr ''signature'')]], [])
        [[(''tracking_number'', JStr ''T1''), (''carrier_code'', JStr ''UPS''),
          (''shipment_cost'', JNum 500), (''confirmation'', JStr ''none'')]]))
   = [(JStr ''FedEx'', JStr ''active'', JNum 500, JStr ''none'')]"
  by code_simp

text \<open>
  C3. A page of two events with the same tracking number, on an empty shipments table.
  The per-event form inserts one shipment for the first event and fills its missing
  carrier from the second. The batched form looks the tracking number up once, before
  either event is applied, finds nothing, and inserts two shipments of the same tracking
  number.
\<close>

theorem batched_page_differs_from_per_event:
  "map (\<lambda>r. (getp r ''tracking_number'', getp r ''carrier_code''))
     (fst (processShipStationPageUnbatched (\<lambda>v. None) ([], [])
        [[(''shipstation_id'', JNum 11), (''tracking_number'', JStr ''T1'')],
         [(''shipstation_id'', JNum 12), (''tracking_number'', JStr ''T1''),
          (''carrier_code'', JStr ''ups'')]]))
   = [(JStr ''T1'', JStr ''ups'')] \<and>
   map (\<lambda>r. (getp r ''tracking_number'', getp r ''carrier_code''))
     (fst (processShipStationPage (\<lambda>v. None) ([], [])
        [[(''shipstation_id'', JNum 11), (''tracking_number'', JStr ''T1'')],
         [(''shipstation_id'', JNum 12), (''tracking_number'', JStr ''T1''),
          (''carrier_code'', JStr ''ups'')]]))
   = [(JStr ''T1'', JNull), (JStr ''T1'', JStr ''ups'')] \<and>
   fst (processShipStationPage (\<lambda>v. None) ([], [])
        [[(''shipstation_id'', JNum 11), (''tracking_number'', JStr ''T1'')],
         [(''shipstation_id'', JNum 12), (''tracking_number'', JStr ''T1''),
          (''carrier_code'', JStr ''ups'')]])
   \<noteq> fst (processShipStationPageUnbatched (\<lambda>v. None) ([], [])
        [[(''shipstation_id'', JNum 11), (''tracking_number'', JStr ''T1'')],
         [(''shipstation_id'', JNum 12), (''tracking_number'', JStr ''T1''),
          (''carrier_code'', JStr ''ups'')]])"
  by code_simp

section \<open>Properties of the shipment stock deduction\<close>

subsection \<open>Invariants of the loops\<close>

lemma foldl_invariant:
  assumes "\<And>st x. I st \<Longrightarrow> I (f st x)" and "I st"
  shows "I (foldl f st xs)"
  using assms(2) by (induction xs arbitrary: st) (simp_all add: assms(1))

lemma reconLoop_invariant:
  assumes "\<And>st x. I st \<Longrightarrow> I (perShipment st x)" and "I st"
  shows "I (fst (reconLoop MAX_PAGES PAGE_SIZE fetch perShipment page st iters))"
  using assms
proof (induction MAX_PAGES PAGE_SIZE fetch perShipment page st iters rule: reconLoop.induct)
  case (1 MAX_PAGES PAGE_SIZE fetch perShipment page st iters)
  show ?case
  proof (cases "page < MAX_PAGES")
    case False
    with "1.prems" show ?thesis by simp
  next
    case True
    note lt = True
    show ?thesis
    proof (cases "fetch (page * PAGE_SIZE) (page * PAGE_SIZE + PAGE_SIZE - 1)")
      case None
      with lt "1.prems" show ?thesis by simp
    next
      case (Some rows)
      have step: "I (foldl perShipment st rows)"
        using "1.prems" by (rule foldl_invariant)
      show ?thesis
      proof (cases "rows = []")
        case True
        with lt Some "1.prems" show ?thesis by simp
      next
        case False
        note ne = False
        show ?thesis
        proof (cases "int (length rows) < PAGE_SIZE")
          case True
          with lt Some ne step show ?thesis by simp
        next
          case False
          from "1.IH" [OF lt Some ne False "1.prems"(1) step] lt Some ne False
          show ?thesis by simp
        qed
      qed
    qed
  qed
qed

lemma runs_invariant:
  assumes "\<And>st s e. I st \<Longrightarrow> I (processLine (runEnv inp) s st e)" and "I st"
  shows "I (runs n inp MAX_PAGES PAGE_SIZE fetch st)"
proof -
  have ship: "\<And>st s. I st \<Longrightarrow> I (processShipment (runEnv inp) st s)"
    unfolding processShipment_def by (rule foldl_invariant) (rule assms(1))
  have recon: "\<And>st. I st \<Longrightarrow> I (reconcileShipments (runEnv inp) MAX_PAGES PAGE_SIZE fetch st)"
    unfolding reconcileShipments_def by (rule reconLoop_invariant) (rule ship)
  have run: "\<And>st. I st \<Longrightarrow> I (runOnce inp MAX_PAGES PAGE_SIZE fetch st)"
    by (simp add: runOnce_def Let_def recon)
  show ?thesis
    by (induction n) (simp_all add: assms(2) run)
qed

subsection \<open>The marker lookup\<close>

lemma limit1_mem: "limit1 choice rows = Some m \<Longrightarrow> m \<in> set rows"
  by (auto simp: limit1_def split: if_splits)

lemma topRows_mem: "m \<in> set (topRows gt rows) \<Longrightarrow> m \<in> set rows"
  by (simp add: topRows_def)

lemma findMovement_marker:
  assumes "findMovement cfold an movs s = Some m"
  shows "m \<in> set movs \<and> markerFor cfold s m"
proof (cases "byShipment an movs s")
  case (Some b)
  with assms have "b = m" by (simp add: findMovement_def split: if_splits)
  with Some have "limit1 (an_byShipmentRow an) (filter (refersTo s) movs) = Some m"
    by (simp add: byShipment_def split: if_splits)
  then have "m \<in> set (filter (refersTo s) movs)"
    by (rule limit1_mem)
  then show ?thesis by (simp add: markerFor_def)
next
  case None
  with assms obtain orderNumber where o: "sh_order_number s = Some orderNumber" "orderNumber \<noteq> []"
    and b: "byOrderNote cfold an movs orderNumber = Some m"
    by (auto simp: findMovement_def split: option.splits if_splits)
  from b have "limit1 (an_byOrderNoteRow an)
      (topRows newer (filter (notesOrder cfold orderNumber) movs)) = Some m"
    by (simp add: byOrderNote_def split: if_splits)
  then have "m \<in> set (topRows newer (filter (notesOrder cfold orderNumber) movs))"
    by (rule limit1_mem)
  then have "m \<in> set (filter (notesOrder cfold orderNumber) movs)"
    by (rule topRows_mem)
  with o show ?thesis by (simp add: markerFor_def)
qed

lemma stamped_notes: "sublist ''Reconciled via cron'' (updatedNotes f)"
  unfolding updatedNotes_def by (rule sublist_append_leftI)

lemma stampMovement_cases:
  assumes "m' \<in> set (stampMovement f sku movs)"
  shows "m' \<in> set movs \<or> alreadyReconciled m'"
proof -
  from assms obtain m where m: "m \<in> set movs"
    and m': "m' = (if mv_id m = mv_id f
               then m\<lparr>mv_notes := Some (updatedNotes f),
                      mv_sku := (if truthy (mv_sku f) then mv_sku m else Some sku)\<rparr>
               else m)"
    unfolding stampMovement_def by auto
  show ?thesis
  proof (cases "mv_id m = mv_id f")
    case True
    with m' have "mv_notes m' = Some (updatedNotes f)" by simp
    then show ?thesis by (simp add: alreadyReconciled_def stamped_notes)
  next
    case False
    with m m' show ?thesis by simp
  qed
qed

text \<open>
  What an iteration of the line loop does to the tables and to the record: nothing; or,
  with a marker that carries no stamp and a stock row that passes the check, the stock
  update, and the stamp unless its update fails.
\<close>

lemma processLine_cases:
  "(stocks (processLine env s st e) = stocks st \<and>
    movements (processLine env s st e) = movements st \<and>
    writes (processLine env s st e) = writes st) \<or>
   (\<exists>f stock item.
      findMovement (env_fold env) (storeAnswers st (answersTaken st)) (movements st) s = Some f \<and>
      \<not> alreadyReconciled f \<and>
      bestStock (storeAnswers st (answersTaken st)) (stocks st) (fst item) (snd item) = Some stock \<and>
      snd e \<le> availableOf stock \<and>
      stocks (processLine env s st e) = deductStock (env_now env) stock (snd e) (stocks st) \<and>
      (movements (processLine env s st e) = movements st \<and>
       writes (processLine env s st e) = writes st @
         [StockWrite s (fst e) (sl_id stock) (orZero (sl_on_hand stock) - snd e)]
       \<or>
       movements (processLine env s st e) = stampMovement f (fst e) (movements st) \<and>
       writes (processLine env s st e) = writes st @
         [StockWrite s (fst e) (sl_id stock) (orZero (sl_on_hand stock) - snd e),
          MovementWrite s (fst e) (mv_id f) (updatedNotes f)]))"
proof (cases "fst e = [] \<or> snd e = 0")
  case True
  then show ?thesis by (auto simp: processLine_def Let_def)
next
  case False
  note go = False
  show ?thesis
  proof (cases "findMovement (env_fold env) (storeAnswers st (answersTaken st)) (movements st) s")
    case None
    with go show ?thesis by (simp add: processLine_def Let_def)
  next
    case (Some f)
    note f = Some
    show ?thesis
    proof (cases "alreadyReconciled f")
      case True
      with go f show ?thesis by (simp add: processLine_def Let_def)
    next
      case False
      note live = False
      show ?thesis
      proof (cases "itemOf (resolveSku (env_text env) (Some (fst e)) (env_productMap env)
                                (env_bundleMap env) (env_clientSkuMap env))")
        case None
        with go f live show ?thesis by (simp add: processLine_def Let_def)
      next
        case (Some item)
        note item = Some
        show ?thesis
        proof (cases "an_stockFindErr (storeAnswers st (answersTaken st))")
          case True
          with go f live item show ?thesis by (simp add: processLine_def Let_def)
        next
          case False
          note found = False
          show ?thesis
          proof (cases "bestStock (storeAnswers st (answersTaken st)) (stocks st) (fst item) (snd item)")
            case None
            with go f live item found show ?thesis by (simp add: processLine_def Let_def)
          next
            case (Some stock)
            note stock = Some
            show ?thesis
            proof (cases "availableOf stock < snd e \<or> an_updErr (storeAnswers st (answersTaken st))")
              case True
              with go f live item found stock show ?thesis
                by (auto simp: processLine_def Let_def)
            next
              case False
              then have enough: "snd e \<le> availableOf stock"
                and upd: "\<not> an_updErr (storeAnswers st (answersTaken st))"
                by simp_all
              show ?thesis
              proof (cases "an_movUpdErr (storeAnswers st (answersTaken st))")
                case True
                with go f live item found stock enough upd
                have "stocks (processLine env s st e)
                        = deductStock (env_now env) stock (snd e) (stocks st) \<and>
                      movements (processLine env s st e) = movements st \<and>
                      writes (processLine env s st e) = writes st @
                        [StockWrite s (fst e) (sl_id stock) (orZero (sl_on_hand stock) - snd e)]"
                  by (simp add: processLine_def Let_def)
                with f live stock enough show ?thesis by blast
              next
                case False
                with go f live item found stock enough upd
                have "stocks (processLine env s st e)
                        = deductStock (env_now env) stock (snd e) (stocks st) \<and>
                      movements (processLine env s st e) = stampMovement f (fst e) (movements st) \<and>
                      writes (processLine env s st e) = writes st @
                        [StockWrite s (fst e) (sl_id stock) (orZero (sl_on_hand stock) - snd e),
                         MovementWrite s (fst e) (mv_id f) (updatedNotes f)]"
                  by (simp add: processLine_def Let_def)
                with f live stock enough show ?thesis by blast
              qed
            qed
          qed
        qed
      qed
    qed
  qed
qed

subsection \<open>The skip without a marker\<close>

lemma noLiveMarker_skip:
  assumes "noLiveMarker (env_fold env) s (movements st)"
  shows "stocks (processLine env s st e) = stocks st \<and>
         movements (processLine env s st e) = movements st \<and>
         writes (processLine env s st e) = writes st"
proof -
  have "\<not> (\<exists>f. findMovement (env_fold env) (storeAnswers st (answersTaken st)) (movements st) s = Some f \<and>
              \<not> alreadyReconciled f)"
  proof
    assume "\<exists>f. findMovement (env_fold env) (storeAnswers st (answersTaken st)) (movements st) s = Some f \<and>
              \<not> alreadyReconciled f"
    then obtain f where f: "findMovement (env_fold env) (storeAnswers st (answersTaken st)) (movements st) s = Some f"
      and live: "\<not> alreadyReconciled f"
      by blast
    from findMovement_marker [OF f] assms have "alreadyReconciled f"
      by (simp add: noLiveMarker_def)
    with live show False by simp
  qed
  with processLine_cases [of env s st e] show ?thesis
    by blast
qed

lemma noLiveMarker_kept:
  assumes "noLiveMarker cfold s (movements st)"
  shows "noLiveMarker cfold s (movements (processLine env s' st e))"
proof -
  from processLine_cases [of env s' st e]
  consider "movements (processLine env s' st e) = movements st"
    | f where "movements (processLine env s' st e) = stampMovement f (fst e) (movements st)"
    by blast
  then show ?thesis
  proof cases
    case 1
    with assms show ?thesis by simp
  next
    case 2
    show ?thesis
      unfolding 2 noLiveMarker_def
    proof (intro ballI impI)
      fix m' assume "m' \<in> set (stampMovement f (fst e) (movements st))" and mk: "markerFor cfold s m'"
      from stampMovement_cases [OF this(1)] show "alreadyReconciled m'"
      proof
        assume "m' \<in> set (movements st)"
        with assms mk show ?thesis by (simp add: noLiveMarker_def)
      qed
    qed
  qed
qed

lemma writesOfShipment_other:
  assumes "s' \<noteq> s"
  shows "writesOfShipment s (writes (processLine env s' st e)) = writesOfShipment s (writes st)"
proof -
  from processLine_cases [of env s' st e]
  consider "writes (processLine env s' st e) = writes st"
    | k n where "writes (processLine env s' st e) = writes st @ [StockWrite s' (fst e) k n]"
    | k n m t where "writes (processLine env s' st e)
        = writes st @ [StockWrite s' (fst e) k n, MovementWrite s' (fst e) m t]"
    by blast
  then show ?thesis
    using assms by cases (simp_all add: writesOfShipment_def)
qed

text \<open>
  The skip of a line without a marker, for the lookup as the code asks it. When every
  movement that references the shipment, or whose notes match the pattern made of its
  order number, carries the stamp (in particular when there is no such movement), no run
  changes a stock row or a movement for a line of that shipment: the record holds no
  update issued for it beyond those it held before.
\<close>

lemma no_candidate_no_deduction:
  assumes "noLiveMarker (in_fold inp) s (movements st)"
  shows "writesOfShipment s (writes (runs n inp MAX_PAGES PAGE_SIZE fetch st))
           = writesOfShipment s (writes st)"
proof -
  have cf: "env_fold (runEnv inp) = in_fold inp"
    by (simp add: runEnv_def Let_def)
  have step: "\<And>(st' :: recon_state) s' e.
      noLiveMarker (in_fold inp) s (movements st') \<and>
      writesOfShipment s (writes st') = writesOfShipment s (writes st) \<Longrightarrow>
      noLiveMarker (in_fold inp) s (movements (processLine (runEnv inp) s' st' e)) \<and>
      writesOfShipment s (writes (processLine (runEnv inp) s' st' e))
        = writesOfShipment s (writes st)"
  proof -
    fix st' :: recon_state and s' e
    assume a: "noLiveMarker (in_fold inp) s (movements st') \<and>
      writesOfShipment s (writes st') = writesOfShipment s (writes st)"
    then have kept: "noLiveMarker (in_fold inp) s (movements (processLine (runEnv inp) s' st' e))"
      by (simp add: noLiveMarker_kept)
    show "noLiveMarker (in_fold inp) s (movements (processLine (runEnv inp) s' st' e)) \<and>
      writesOfShipment s (writes (processLine (runEnv inp) s' st' e))
        = writesOfShipment s (writes st)"
    proof (cases "s' = s")
      case False
      with a kept writesOfShipment_other [of s' s "runEnv inp" st' e] show ?thesis by simp
    next
      case True
      from a have "noLiveMarker (env_fold (runEnv inp)) s (movements st')"
        by (simp add: cf)
      from noLiveMarker_skip [OF this, of e] a kept True show ?thesis by simp
    qed
  qed
  have "noLiveMarker (in_fold inp) s (movements (runs n inp MAX_PAGES PAGE_SIZE fetch st)) \<and>
      writesOfShipment s (writes (runs n inp MAX_PAGES PAGE_SIZE fetch st))
        = writesOfShipment s (writes st)"
    by (rule runs_invariant [where I = "\<lambda>st'. noLiveMarker (in_fold inp) s (movements st') \<and>
          writesOfShipment s (writes st') = writesOfShipment s (writes st)"])
       (rule step, assumption, simp add: assms)
  then show ?thesis
    by simp
qed

text \<open>
  The pattern match on examples: containment without regard to case for an order number
  of letters and digits; \<open>_\<close>, \<open>%\<close> and \<open>*\<close> in the order number as wildcards; a backslash
  before a character that is then taken literally.
\<close>

lemma likeMatch_examples:
  "likeMatch lower_char (ilikePattern ''1001'') ''Order 1001 shipped'' \<and>
   likeMatch lower_char (ilikePattern ''ab-7'') ''order AB-7'' \<and>
   \<not> likeMatch lower_char (ilikePattern ''1001'') ''Order 1002'' \<and>
   likeMatch lower_char (ilikePattern ''SO_1001'') ''Order SO-1001'' \<and>
   likeMatch lower_char (ilikePattern ''10%1'') ''Order 1021'' \<and>
   likeMatch lower_char (ilikePattern ''10*1'') ''Order 1021'' \<and>
   \<not> likeMatch lower_char (ilikePattern [CHR ''S'', CHR ''O'', CHR 0x5C, CHR ''_'', CHR ''1''])
       ''Order SO-1'' \<and>
   likeMatch lower_char (ilikePattern [CHR ''S'', CHR ''O'', CHR 0x5C, CHR ''_'', CHR ''1''])
       ''Order SO_1''"
  by code_simp

text \<open>
  C7. The fallback lookup is not a test of containment. The order number goes into the
  pattern \<^verbatim>\<open>`%${s.order_number}%`\<close> as it is, and \<open>_\<close> and \<open>%\<close> in it are wildcards of
  \<^verbatim>\<open>ilike\<close>. The shipment \<open>s1\<close> has the order number \<open>SO_1001\<close> and a line of 3
  \<open>Widget\<close>. The only movement references no shipment, and its notes, \<open>Order SO-1001\<close>,
  do not contain \<open>SO_1001\<close>, with or without regard to case: no marker exists for the
  line. One run all the same takes that movement for the marker, deducts the stock from
  10 to 7 and stamps the movement of the other order.
\<close>

theorem wildcard_order_number_finds_marker:
  "\<not> refersTo
       \<lparr>sh_id = ''s1'',
        sh_shipment_items = ItemsArray
          [\<lparr>li_sku = Some ''Widget'', li_SKU = None, li_product_sku = None,
              li_quantity = Some 3, li_Quantity = None, li_qty = None\<rparr>],
        sh_order_number = Some ''SO_1001''\<rparr>
       \<lparr>mv_id = ''m9'', mv_sku = None, mv_reference_type = None,
        mv_reference_id = None, mv_reason = Some ''order_shipment'',
        mv_notes = Some ''Order SO-1001'', mv_created_at = 5\<rparr> \<and>
   \<not> containsOrderNumber ''SO_1001''
       \<lparr>mv_id = ''m9'', mv_sku = None, mv_reference_type = None,
        mv_reference_id = None, mv_reason = Some ''order_shipment'',
        mv_notes = Some ''Order SO-1001'', mv_created_at = 5\<rparr> \<and>
   reconOutcome
     (runs 1
        \<lparr>in_text = asciiText, in_fold = lower_char, in_now = ''t1'', in_ordersErr = False,
         in_orderItems = [\<lparr>oi_sku = Some ''Widget'', oi_quantity = Some 1\<rparr>],
         in_products = [\<lparr>p_id = Some ''p1'', p_Sku = Some ''WIDGET''\<rparr>],
         in_bundles = [], in_ciErr = False, in_clientSkuMap = JsDict [] None,
         in_pickErr = False, in_stockErr = False\<rparr>
        20 500
        (\<lambda>a b. if a = 0
           then Some [\<lparr>sh_id = ''s1'',
                      sh_shipment_items = ItemsArray
                        [\<lparr>li_sku = Some ''Widget'', li_SKU = None, li_product_sku = None,
                            li_quantity = Some 3, li_Quantity = None, li_qty = None\<rparr>],
                      sh_order_number = Some ''SO_1001''\<rparr>]
           else Some [])
        \<lparr>stocks = [\<lparr>sl_id = ''k1'', sl_item_type = ''product'', sl_item_id = ''p1'',
                    sl_on_hand = Some 10, sl_available = Some 10, sl_location_type = ''Batch'',
                    sl_updated_at = ''t0''\<rparr>],
         movements = [\<lparr>mv_id = ''m9'', mv_sku = None, mv_reference_type = None,
                       mv_reference_id = None, mv_reason = Some ''order_shipment'',
                       mv_notes = Some ''Order SO-1001'', mv_created_at = 5\<rparr>],
         writes = [], storeAnswers = (\<lambda>n. allSucceed), answersTaken = 0\<rparr>)
     = ([Some 7], [Some ''Order SO-1001 | Reconciled via cron''],
        [(''s1'', ''widget'', ''inventory_stock_levels'', ''k1''),
         (''s1'', ''widget'', ''inventory_movements'', ''m9'')])"
  by code_simp

subsection \<open>What a deduction does to the stock\<close>

lemma bestStock_candidate:
  assumes "bestStock an rows itemType itemId = Some stock"
  shows "stock \<in> set rows \<and>
         (sl_location_type stock = ''Batch'' \<or> sl_location_type stock = ''Production'')"
proof -
  from assms have "stock \<in> set (topRows moreAvailable (filter (stockCandidate itemType itemId) rows))"
    unfolding bestStock_def by (rule limit1_mem)
  then have "stock \<in> set (filter (stockCandidate itemType itemId) rows)"
    by (rule topRows_mem)
  then show ?thesis by (simp add: stockCandidate_def)
qed

lemma deductStock_nth:
  "i < length rows \<Longrightarrow>
   deductStock now stock qty rows ! i =
     (if sl_id (rows ! i) = sl_id stock
      then (rows ! i)\<lparr>sl_on_hand := Some (orZero (sl_on_hand stock) - qty), sl_updated_at := now\<rparr>
      else rows ! i)"
  by (simp add: deductStock_def)

text \<open>
  C8, as the code has it. The body of the line loop either issues no update and leaves
  the stock rows as they are, or it selected a stock row at a \<open>Batch\<close> or \<open>Production\<close>
  location whose available quantity (its \<open>on_hand\<close> when \<open>available\<close> is null) is at
  least the shipped quantity. Then the rows of other ids are as they were, and the rows
  of that id have \<open>on_hand\<close> set to the selected row's \<open>on_hand\<close> minus the shipped
  quantity: less than before when the shipped quantity is positive, and not negative when
  the row's \<open>on_hand\<close> is at least its available quantity.
\<close>

theorem deduction_guarded_by_available:
  "(writes (processLine env s st (skuCanon, qty)) = writes st \<longrightarrow>
      stocks (processLine env s st (skuCanon, qty)) = stocks st) \<and>
   (writes (processLine env s st (skuCanon, qty)) \<noteq> writes st \<longrightarrow>
      (\<exists>stock \<in> set (stocks st).
         (sl_location_type stock = ''Batch'' \<or> sl_location_type stock = ''Production'') \<and>
         qty \<le> availableOf stock \<and>
         length (stocks (processLine env s st (skuCanon, qty))) = length (stocks st) \<and>
         (\<forall>i < length (stocks st).
            sl_id (stocks st ! i) \<noteq> sl_id stock \<longrightarrow>
              stocks (processLine env s st (skuCanon, qty)) ! i = stocks st ! i) \<and>
         (\<forall>i < length (stocks st).
            sl_id (stocks st ! i) = sl_id stock \<longrightarrow>
              sl_on_hand (stocks (processLine env s st (skuCanon, qty)) ! i)
                = Some (orZero (sl_on_hand stock) - qty)) \<and>
         (0 < qty \<longrightarrow> orZero (sl_on_hand stock) - qty < orZero (sl_on_hand stock)) \<and>
         (availableOf stock \<le> orZero (sl_on_hand stock) \<longrightarrow> 0 \<le> orZero (sl_on_hand stock) - qty)))"
proof -
  let ?st' = "processLine env s st (skuCanon, qty)"
  from processLine_cases [of env s st "(skuCanon, qty)"]
  consider "stocks ?st' = stocks st \<and> writes ?st' = writes st"
    | stock item where
        "bestStock (storeAnswers st (answersTaken st)) (stocks st) (fst item) (snd item) = Some stock"
        "qty \<le> availableOf stock"
        "stocks ?st' = deductStock (env_now env) stock qty (stocks st)"
        "writes ?st' \<noteq> writes st"
    by auto
  then show ?thesis
  proof cases
    case 1
    then show ?thesis by simp
  next
    case 2
    from bestStock_candidate [OF 2(1)]
    have mem: "stock \<in> set (stocks st)"
      and loc: "sl_location_type stock = ''Batch'' \<or> sl_location_type stock = ''Production''"
      by simp_all
    note st' = 2(3) and w = 2(4)
    have len: "length (stocks ?st') = length (stocks st)"
      by (simp add: st' deductStock_def)
    have other: "\<forall>i < length (stocks st).
            sl_id (stocks st ! i) \<noteq> sl_id stock \<longrightarrow> stocks ?st' ! i = stocks st ! i"
      by (simp add: st' deductStock_nth)
    have same: "\<forall>i < length (stocks st).
            sl_id (stocks st ! i) = sl_id stock \<longrightarrow>
              sl_on_hand (stocks ?st' ! i) = Some (orZero (sl_on_hand stock) - qty)"
      by (simp add: st' deductStock_nth)
    have neg: "availableOf stock \<le> orZero (sl_on_hand stock) \<longrightarrow> 0 \<le> orZero (sl_on_hand stock) - qty"
      using 2(2) by simp
    have dec: "0 < qty \<longrightarrow> orZero (sl_on_hand stock) - qty < orZero (sl_on_hand stock)"
      by simp
    from mem loc 2(2) len other same dec neg w show ?thesis
      by blast
  qed
qed

theorem deduction_guarded_by_available_witness:
  "\<exists>stock \<in> set [\<lparr>sl_id = ''k1'', sl_item_type = ''product'', sl_item_id = ''p1'',
            sl_on_hand = Some 10, sl_available = Some 4, sl_location_type = ''Batch'',
            sl_updated_at = ''t0''\<rparr>].
     (sl_location_type stock = ''Batch'' \<or> sl_location_type stock = ''Production'') \<and>
     3 \<le> availableOf stock \<and>
     orZero (sl_on_hand stock) - 3 < orZero (sl_on_hand stock) \<and>
     0 \<le> orZero (sl_on_hand stock) - 3"
proof -
  define env where "env =
      \<lparr>env_text = asciiText, env_fold = lower_char,
       env_productMap = JsDict [(''widget'', \<lparr>p_id = Some ''p1'', p_Sku = Some ''WIDGET''\<rparr>)] None,
       env_bundleMap = JsDict [] None, env_clientSkuMap = JsDict [] None, env_now = ''t1''\<rparr>"
  define s where "s = \<lparr>sh_id = ''s1'',
      sh_shipment_items = ItemsArray [\<lparr>li_sku = Some ''Widget'', li_SKU = None, li_product_sku = None,
         li_quantity = Some 3, li_Quantity = None, li_qty = None\<rparr>],
      sh_order_number = Some ''1001''\<rparr>"
  define k where "k = \<lparr>sl_id = ''k1'', sl_item_type = ''product'', sl_item_id = ''p1'',
            sl_on_hand = Some 10, sl_available = Some 4, sl_location_type = ''Batch'',
            sl_updated_at = ''t0''\<rparr>"
  define st where "st = \<lparr>stocks = [k],
         movements = [\<lparr>mv_id = ''m1'', mv_sku = None, mv_reference_type = Some ''shipment'',
            mv_reference_id = Some ''s1'', mv_reason = Some ''order_shipment'',
            mv_notes = Some ''Order 1001'', mv_created_at = 5\<rparr>],
         writes = [], storeAnswers = (\<lambda>n. allSucceed), answersTaken = 0\<rparr>"
  have "writes (processLine env s st (''widget'', 3)) \<noteq> []"
    unfolding env_def s_def st_def k_def by code_simp
  then have w: "writes (processLine env s st (''widget'', 3)) \<noteq> writes st"
    by (simp add: st_def)
  have a: "availableOf k \<le> orZero (sl_on_hand k)" and q: "(0::int) < 3"
    by (simp_all add: k_def availableOf_def orZero_def)
  from deduction_guarded_by_available [of env s st "''widget''" 3] w
  obtain stock where "stock \<in> set (stocks st)"
    and "sl_location_type stock = ''Batch'' \<or> sl_location_type stock = ''Production''"
    and "3 \<le> availableOf stock"
    and "0 < (3::int) \<longrightarrow> orZero (sl_on_hand stock) - 3 < orZero (sl_on_hand stock)"
    and "availableOf stock \<le> orZero (sl_on_hand stock) \<longrightarrow> 0 \<le> orZero (sl_on_hand stock) - 3"
    by blast
  moreover from this(1) have "stock = k"
    by (simp add: st_def)
  ultimately have "k \<in> set [k] \<and>
     (sl_location_type k = ''Batch'' \<or> sl_location_type k = ''Production'') \<and>
     3 \<le> availableOf k \<and>
     orZero (sl_on_hand k) - 3 < orZero (sl_on_hand k) \<and>
     0 \<le> orZero (sl_on_hand k) - 3"
    using a q by simp
  then show ?thesis
    unfolding k_def by blast
qed

text \<open>
  C8 as worded fails on the code. A stock row with \<open>on_hand = 1\<close> and \<open>available = 5\<close>
  passes the check for a shipped quantity of \<open>3\<close> and ends at \<open>on_hand = -2\<close>; and a line
  whose quantity is \<open>-2\<close> raises \<open>on_hand\<close> from \<open>1\<close> to \<open>3\<close>.
\<close>

theorem deduction_below_zero_counterexample:
  "map sl_on_hand (stocks (processShipment
      \<lparr>env_text = asciiText, env_fold = lower_char,
       env_productMap = JsDict [(''widget'', \<lparr>p_id = Some ''p1'', p_Sku = Some ''WIDGET''\<rparr>)] None,
       env_bundleMap = JsDict [] None, env_clientSkuMap = JsDict [] None, env_now = ''t1''\<rparr>
      \<lparr>stocks = [\<lparr>sl_id = ''k1'', sl_item_type = ''product'', sl_item_id = ''p1'',
                  sl_on_hand = Some 1, sl_available = Some 5, sl_location_type = ''Batch'',
                  sl_updated_at = ''t0''\<rparr>],
       movements = [\<lparr>mv_id = ''m1'', mv_sku = None, mv_reference_type = Some ''shipment'',
                     mv_reference_id = Some ''s1'', mv_reason = Some ''order_shipment'',
                     mv_notes = Some ''Order 1001'', mv_created_at = 5\<rparr>],
       writes = [], storeAnswers = (\<lambda>n. allSucceed), answersTaken = 0\<rparr>
      \<lparr>sh_id = ''s1'',
       sh_shipment_items = ItemsArray
         [\<lparr>li_sku = Some ''Widget'', li_SKU = None, li_product_sku = None,
             li_quantity = Some 3, li_Quantity = None, li_qty = None\<rparr>],
       sh_order_number = Some ''1001''\<rparr>)) = [Some (- 2)] \<and>
   map sl_on_hand (stocks (processShipment
      \<lparr>env_text = asciiText, env_fold = lower_char,
       env_productMap = JsDict [(''widget'', \<lparr>p_id = Some ''p1'', p_Sku = Some ''WIDGET''\<rparr>)] None,
       env_bundleMap = JsDict [] None, env_clientSkuMap = JsDict [] None, env_now = ''t1''\<rparr>
      \<lparr>stocks = [\<lparr>sl_id = ''k1'', sl_item_type = ''product'', sl_item_id = ''p1'',
                  sl_on_hand = Some 1, sl_available = Some 5, sl_location_type = ''Batch'',
                  sl_updated_at = ''t0''\<rparr>],
       movements = [\<lparr>mv_id = ''m1'', mv_sku = None, mv_reference_type = Some ''shipment'',
                     mv_reference_id = Some ''s1'', mv_reason = Some ''order_shipment'',
                     mv_notes = Some ''Order 1001'', mv_created_at = 5\<rparr>],
       writes = [], storeAnswers = (\<lambda>n. allSucceed), answersTaken = 0\<rparr>
      \<lparr>sh_id = ''s1'',
       sh_shipment_items = ItemsArray
         [\<lparr>li_sku = Some ''Widget'', li_SKU = None, li_product_sku = None,
             li_quantity = Some (- 2), li_Quantity = None, li_qty = None\<rparr>],
       sh_order_number = Some ''1001''\<rparr>)) = [Some 3]"
  by code_simp

subsection \<open>One marker for all the SKUs of a shipment\<close>

text \<open>
  C1. The marker lookup is keyed by the shipment, not by the SKU. The shipment \<open>s1\<close> has
  two lines, 3 \<open>Widget\<close> and 2 \<open>Gadget\<close>; one movement references it, and both products have
  10 on hand and available at a batch location. All store calls succeed. Two runs deduct
  the \<open>Widget\<close> line once, from 10 to 7, and stamp the movement once. The \<open>Gadget\<close> line
  finds the stamp that the \<open>Widget\<close> line left, and is deducted in no run: the record
  holds no update for it, and its stock is still 10. The same line alone in the shipment
  is deducted and stamped once in two runs, from 10 to 8.
\<close>

theorem second_sku_of_a_shipment_never_deducted:
  "reconOutcome
     (runs 2
        \<lparr>in_text = asciiText, in_fold = lower_char, in_now = ''t1'', in_ordersErr = False,
         in_orderItems = [\<lparr>oi_sku = Some ''Widget'', oi_quantity = Some 1\<rparr>],
         in_products = [\<lparr>p_id = Some ''p1'', p_Sku = Some ''WIDGET''\<rparr>,
                        \<lparr>p_id = Some ''p2'', p_Sku = Some ''GADGET''\<rparr>],
         in_bundles = [], in_ciErr = False, in_clientSkuMap = JsDict [] None,
         in_pickErr = False, in_stockErr = False\<rparr>
        20 500
        (\<lambda>a b. if a = 0
           then Some [\<lparr>sh_id = ''s1'',
                      sh_shipment_items = ItemsArray
                        [\<lparr>li_sku = Some ''Widget'', li_SKU = None, li_product_sku = None,
                            li_quantity = Some 3, li_Quantity = None, li_qty = None\<rparr>,
                         \<lparr>li_sku = Some ''Gadget'', li_SKU = None, li_product_sku = None,
                            li_quantity = Some 2, li_Quantity = None, li_qty = None\<rparr>],
                      sh_order_number = Some ''1001''\<rparr>]
           else Some [])
        \<lparr>stocks = [\<lparr>sl_id = ''k1'', sl_item_type = ''product'', sl_item_id = ''p1'',
                    sl_on_hand = Some 10, sl_available = Some 10, sl_location_type = ''Batch'',
                    sl_updated_at = ''t0''\<rparr>,
                   \<lparr>sl_id = ''k2'', sl_item_type = ''product'', sl_item_id = ''p2'',
                    sl_on_hand = Some 10, sl_available = Some 10, sl_location_type = ''Batch'',
                    sl_updated_at = ''t0''\<rparr>],
         movements = [\<lparr>mv_id = ''m1'', mv_sku = None, mv_reference_type = Some ''shipment'',
                       mv_reference_id = Some ''s1'', mv_reason = Some ''order_shipment'',
                       mv_notes = Some ''Order 1001'', mv_created_at = 5\<rparr>],
         writes = [], storeAnswers = (\<lambda>n. allSucceed), answersTaken = 0\<rparr>)
     = ([Some 7, Some 10], [Some ''Order 1001 | Reconciled via cron''],
        [(''s1'', ''widget'', ''inventory_stock_levels'', ''k1''),
         (''s1'', ''widget'', ''inventory_movements'', ''m1'')]) \<and>
   reconOutcome
     (runs 2
        \<lparr>in_text = asciiText, in_fold = lower_char, in_now = ''t1'', in_ordersErr = False,
         in_orderItems = [\<lparr>oi_sku = Some ''Widget'', oi_quantity = Some 1\<rparr>],
         in_products = [\<lparr>p_id = Some ''p1'', p_Sku = Some ''WIDGET''\<rparr>,
                        \<lparr>p_id = Some ''p2'', p_Sku = Some ''GADGET''\<rparr>],
         in_bundles = [], in_ciErr = False, in_clientSkuMap = JsDict [] None,
         in_pickErr = False, in_stockErr = False\<rparr>
        20 500
        (\<lambda>a b. if a = 0
           then Some [\<lparr>sh_id = ''s1'',
                      sh_shipment_items = ItemsArray
                        [\<lparr>li_sku = Some ''Gadget'', li_SKU = None, li_product_sku = None,
                            li_quantity = Some 2, li_Quantity = None, li_qty = None\<rparr>],
                      sh_order_number = Some ''1001''\<rparr>]
           else Some [])
        \<lparr>stocks = [\<lparr>sl_id = ''k1'', sl_item_type = ''product'', sl_item_id = ''p1'',
                    sl_on_hand = Some 10, sl_available = Some 10, sl_location_type = ''Batch'',
                    sl_updated_at = ''t0''\<rparr>,
                   \<lparr>sl_id = ''k2'', sl_item_type = ''product'', sl_item_id = ''p2'',
                    sl_on_hand = Some 10, sl_available = Some 10, sl_location_type = ''Batch'',
                    sl_updated_at = ''t0''\<rparr>],
         movements = [\<lparr>mv_id = ''m1'', mv_sku = None, mv_reference_type = Some ''shipment'',
                       mv_reference_id = Some ''s1'', mv_reason = Some ''order_shipment'',
                       mv_notes = Some ''Order 1001'', mv_created_at = 5\<rparr>],
         writes = [], storeAnswers = (\<lambda>n. allSucceed), answersTaken = 0\<rparr>)
     = ([Some 10, Some 8], [Some ''Order 1001 | Reconciled via cron''],
        [(''s1'', ''gadget'', ''inventory_stock_levels'', ''k2''),
         (''s1'', ''gadget'', ''inventory_movements'', ''m1'')])"
  by code_simp

subsection \<open>Runs that deduct a line again\<close>

text \<open>
  The stamp is what stops a second deduction, and the two updates are two calls. When
  the movement update of the first run fails, the run logs the error and leaves the
  deduction without a stamp, and the next run deducts the line again: 10, then 7, then 4.
\<close>

lemma failed_stamp_repeats_deduction:
  "reconOutcome
     (runs 2
        \<lparr>in_text = asciiText, in_fold = lower_char, in_now = ''t1'', in_ordersErr = False,
         in_orderItems = [\<lparr>oi_sku = Some ''Widget'', oi_quantity = Some 1\<rparr>],
         in_products = [\<lparr>p_id = Some ''p1'', p_Sku = Some ''WIDGET''\<rparr>],
         in_bundles = [], in_ciErr = False, in_clientSkuMap = JsDict [] None,
         in_pickErr = False, in_stockErr = False\<rparr>
        20 500
        (\<lambda>a b. if a = 0
           then Some [\<lparr>sh_id = ''s1'',
                      sh_shipment_items = ItemsArray
                        [\<lparr>li_sku = Some ''Widget'', li_SKU = None, li_product_sku = None,
                            li_quantity = Some 3, li_Quantity = None, li_qty = None\<rparr>],
                      sh_order_number = Some ''1001''\<rparr>]
           else Some [])
        \<lparr>stocks = [\<lparr>sl_id = ''k1'', sl_item_type = ''product'', sl_item_id = ''p1'',
                    sl_on_hand = Some 10, sl_available = Some 10, sl_location_type = ''Batch'',
                    sl_updated_at = ''t0''\<rparr>],
         movements = [\<lparr>mv_id = ''m1'', mv_sku = None, mv_reference_type = Some ''shipment'',
                       mv_reference_id = Some ''s1'', mv_reason = Some ''order_shipment'',
                       mv_notes = Some ''Order 1001'', mv_created_at = 5\<rparr>],
         writes = [],
         storeAnswers = (\<lambda>n. if n = 0 then allSucceed\<lparr>an_movUpdErr := True\<rparr> else allSucceed),
         answersTaken = 0\<rparr>)
     = ([Some 4], [Some ''Order 1001 | Reconciled via cron''],
        [(''s1'', ''widget'', ''inventory_stock_levels'', ''k1''),
         (''s1'', ''widget'', ''inventory_stock_levels'', ''k1''),
         (''s1'', ''widget'', ''inventory_movements'', ''m1'')])"
  by code_simp

text \<open>
  The lookup by shipment asks for one row in no order. With two movements that reference
  the shipment, a store that answers the first one in the first run and the other one in
  the second run has the line deducted in both runs.
\<close>

lemma another_marker_repeats_deduction:
  "reconOutcome
     (runs 2
        \<lparr>in_text = asciiText, in_fold = lower_char, in_now = ''t1'', in_ordersErr = False,
         in_orderItems = [\<lparr>oi_sku = Some ''Widget'', oi_quantity = Some 1\<rparr>],
         in_products = [\<lparr>p_id = Some ''p1'', p_Sku = Some ''WIDGET''\<rparr>],
         in_bundles = [], in_ciErr = False, in_clientSkuMap = JsDict [] None,
         in_pickErr = False, in_stockErr = False\<rparr>
        20 500
        (\<lambda>a b. if a = 0
           then Some [\<lparr>sh_id = ''s1'',
                      sh_shipment_items = ItemsArray
                        [\<lparr>li_sku = Some ''Widget'', li_SKU = None, li_product_sku = None,
                            li_quantity = Some 3, li_Quantity = None, li_qty = None\<rparr>],
                      sh_order_number = Some ''1001''\<rparr>]
           else Some [])
        \<lparr>stocks = [\<lparr>sl_id = ''k1'', sl_item_type = ''product'', sl_item_id = ''p1'',
                    sl_on_hand = Some 10, sl_available = Some 10, sl_location_type = ''Batch'',
                    sl_updated_at = ''t0''\<rparr>],
         movements = [\<lparr>mv_id = ''m1'', mv_sku = None, mv_reference_type = Some ''shipment'',
                       mv_reference_id = Some ''s1'', mv_reason = Some ''order_shipment'',
                       mv_notes = Some ''Order 1001'', mv_created_at = 5\<rparr>,
                      \<lparr>mv_id = ''m2'', mv_sku = None, mv_reference_type = Some ''shipment'',
                       mv_reference_id = Some ''s1'', mv_reason = Some ''order_shipment'',
                       mv_notes = Some ''Order 1001'', mv_created_at = 5\<rparr>],
         writes = [],
         storeAnswers = (\<lambda>n. if n = 0 then allSucceed else allSucceed\<lparr>an_byShipmentRow := 1\<rparr>),
         answersTaken = 0\<rparr>)
     = ([Some 4],
        [Some ''Order 1001 | Reconciled via cron'', Some ''Order 1001 | Reconciled via cron''],
        [(''s1'', ''widget'', ''inventory_stock_levels'', ''k1''),
         (''s1'', ''widget'', ''inventory_movements'', ''m1''),
         (''s1'', ''widget'', ''inventory_stock_levels'', ''k1''),
         (''s1'', ''widget'', ''inventory_movements'', ''m2'')])"
  by code_simp

text \<open>
  Step 6 is behind the early returns of \<^verbatim>\<open>runOnce\<close>: runs that find no queued demand
  leave the stock and the movements as they are.
\<close>

lemma no_demand_no_reconciliation:
  assumes "queuedDemand (in_text inp) (env_productMap (runEnv inp)) (env_bundleMap (runEnv inp))
             (in_orderItems inp) = []"
  shows "runs n inp MAX_PAGES PAGE_SIZE fetch st = st"
  using assms by (induction n) (simp_all add: runOnce_def Let_def)
end
